theory Spec2Isabelle
  imports Main "HOL-Library.Word" "HOL-Library.AList" "HOL-Library.Finite_Map"
begin

section \<open>Results of Go calls\<close>

text \<open>
  A Go function either returns its results or panics (an index or slice out of range, a
  \<open>nil\<close> dereference, an explicit \<open>panic\<close>), which ends the run. A result
  \<open>(value, error)\<close> is a pair whose components are \<open>None\<close> for \<open>nil\<close>.
\<close>

datatype 'a outcome = Returns 'a | Panics string

type_synonym Time = int

section \<open>Shared value types\<close>

text \<open>
  Go \<open>error\<close> values are opaque to every function verified here: the code only tests
  them against \<open>nil\<close>, passes them on, or (for the container engine) tests whether the
  error is the distinguished \<open>*docker.NoSuchContainer\<close>. A call that returns
  \<open>(value, error)\<close> is modelled by a pair of options, \<open>None\<close> being \<open>nil\<close>,
  so that every combination the Go signature allows is a value of the model.
\<close>

datatype error =
    NoSuchContainer string
  | Failure string

text \<open>
  \<open>ServiceConfig\<close> is declared in a file of the repository that is not part of the
  sources at hand; the functions below only use it through its methods \<open>Name\<close>,
  \<open>ID()\<close>, \<open>Version()\<close>, \<open>Env()\<close>, \<open>Ports()\<close>, \<open>ContainerName()\<close> and
  \<open>IsContainerVersion(name)\<close>. The record holds the value of each of them, so every
  statement below holds whatever these methods compute. \<open>ID()\<close> is an \<open>int64\<close>.
\<close>

record ServiceConfig =
  sc_Name :: string
  sc_ID :: "64 word"
  sc_Version :: string
  sc_Env :: "(string \<times> string) list"
  sc_Ports :: "string list"
  sc_ContainerName :: string
  sc_IsContainerVersion :: "string \<Rightarrow> bool"

section \<open>Change detection: \<open>checkForChanges\<close> (registry/notify.go)\<close>












section \<open>Library functions used by the registry\<close>

text \<open>
  \<open>strings.Split(s, sep)\<close> for a one-character separator: the pieces of \<open>s\<close> between
  the separators; the result always has at least one element.
\<close>

fun strings_Split :: "string \<Rightarrow> char \<Rightarrow> string list" where
  "strings_Split [] sep = [[]]"
| "strings_Split (c # cs) sep =
     (if c = sep then [] # strings_Split cs sep
      else (case strings_Split cs sep of
              [] \<Rightarrow> [[c]]
            | p # ps \<Rightarrow> (c # p) # ps))"

text \<open>\<open>strings.Join(elems, sep)\<close>.\<close>

fun strings_Join :: "string list \<Rightarrow> string \<Rightarrow> string" where
  "strings_Join [] sep = []"
| "strings_Join [e] sep = e"
| "strings_Join (e # es) sep = e @ sep @ strings_Join es sep"

text \<open>
  \<open>path.Clean\<close>: empty and \<open>.\<close> elements are dropped, an inner \<open>..\<close> removes the
  element before it, a \<open>..\<close> at the start of a rooted path is dropped, and the empty
  result is \<open>.\<close>. \<open>cleanElems rooted out es\<close> walks the elements \<open>es\<close> with the
  elements kept so far in \<open>out\<close>, most recent first.
\<close>

fun cleanElems :: "bool \<Rightarrow> string list \<Rightarrow> string list \<Rightarrow> string list" where
  "cleanElems rooted out [] = rev out"
| "cleanElems rooted out (e # es) =
     (if e = [] \<or> e = ''.'' then cleanElems rooted out es
      else if e = ''..'' then
        (case out of
           [] \<Rightarrow> if rooted then cleanElems rooted [] es else cleanElems rooted [''..''] es
         | e1 # kept \<Rightarrow>
             if e1 = ''..'' then cleanElems rooted (''..'' # out) es
             else cleanElems rooted kept es)
      else cleanElems rooted (e # out) es)"

definition path_Clean :: "string \<Rightarrow> string" where
  "path_Clean p =
     (let rooted = (p \<noteq> [] \<and> hd p = CHR ''/'');
          body = strings_Join (cleanElems rooted [] (strings_Split p (CHR ''/''))) ''/'';
          cleaned = (if rooted then ''/'' @ body else body)
      in if cleaned = [] then ''.'' else cleaned)"

text \<open>\<open>path.Join\<close>: empty elements are ignored, the rest is joined with slashes and
  cleaned; when every element is empty the result is the empty string.\<close>

definition path_Join :: "string list \<Rightarrow> string" where
  "path_Join elem =
     (let es = filter (\<lambda>e. e \<noteq> []) elem
      in if es = [] then [] else path_Clean (strings_Join es ''/''))"

text \<open>\<open>path.Base\<close>: the last element of the path, trailing slashes removed first.\<close>

definition path_Base :: "string \<Rightarrow> string" where
  "path_Base p =
     (if p = [] then ''.''
      else (let stripped = rev (dropWhile (\<lambda>c. c = CHR ''/'') (rev p));
                base = rev (takeWhile (\<lambda>c. c \<noteq> CHR ''/'') (rev stripped))
            in if base = [] then ''/'' else base))"

section \<open>The registry backend\<close>

text \<open>
  Modelled from the spec: the \<open>RegistryBackend\<close> interface and its implementation are
  not among the sources. The spec gives the contract: \<open>Get(key, field)\<close>,
  \<open>Set(key, field, value)\<close>, \<open>Delete(key)\<close>, \<open>Expire(key, ttlSeconds)\<close>,
  \<open>Ttl(key)\<close>, \<open>Keys(globPattern)\<close> returning the matching keys, \<open>Members(setKey)\<close>
  returning the set's contents, \<open>AddMember\<close> and \<open>RemoveMember(setKey, value)\<close> returning
  the count changed, and a publish primitive. The model is a store with one name space
  of keys: hashes (field to value), sets of strings, a lease per key and the log of
  published messages. A set that loses its last member disappears, as a key with no
  content does. Any call can fail (a connection drop): \<open>b_faults\<close> says which calls
  fail and with what error; a failed call changes nothing.
\<close>

datatype op =
    OpGet string string
  | OpSet string string string
  | OpDelete string
  | OpExpire string "64 word"
  | OpTtl string
  | OpKeys string
  | OpMembers string
  | OpAddMember string string
  | OpRemoveMember string string
  | OpNotify string string

record backend =
  b_hashes :: "(string \<times> (string \<times> string) list) list"
  b_sets :: "(string \<times> string list) list"
  b_ttls :: "(string \<times> 64 word) list"
  b_published :: "(string \<times> string) list"
  b_faults :: "op \<Rightarrow> error option"

text \<open>Modelled from the spec: glob patterns, where \<open>*\<close> stands for any run of
  characters and \<open>?\<close> for any one character.\<close>

fun glob_match :: "string \<Rightarrow> string \<Rightarrow> bool" where
  "glob_match [] [] = True"
| "glob_match [] (c # s) = False"
| "glob_match (p # ps) [] = (p = CHR ''*'' \<and> glob_match ps [])"
| "glob_match (p # ps) (c # s) =
     (if p = CHR ''*'' then glob_match ps (c # s) \<or> glob_match (p # ps) s
      else (p = CHR ''?'' \<or> p = c) \<and> glob_match ps s)"

definition backend_keys :: "backend \<Rightarrow> string list" where
  "backend_keys b = map fst (b_hashes b) @ map fst (b_sets b)"

definition Keys :: "string \<Rightarrow> backend \<Rightarrow> string list \<times> error option" where
  "Keys pattern b =
     (case b_faults b (OpKeys pattern) of
        Some err \<Rightarrow> ([], Some err)
      | None \<Rightarrow> (filter (glob_match pattern) (backend_keys b), None))"

definition set_members :: "backend \<Rightarrow> string \<Rightarrow> string list" where
  "set_members b key = (case map_of (b_sets b) key of None \<Rightarrow> [] | Some ms \<Rightarrow> ms)"

definition Members :: "string \<Rightarrow> backend \<Rightarrow> string list \<times> error option" where
  "Members key b =
     (case b_faults b (OpMembers key) of
        Some err \<Rightarrow> ([], Some err)
      | None \<Rightarrow> (set_members b key, None))"

definition AddMember :: "string \<Rightarrow> string \<Rightarrow> backend \<Rightarrow> (int \<times> error option) \<times> backend" where
  "AddMember key v b =
     (case b_faults b (OpAddMember key v) of
        Some err \<Rightarrow> ((0, Some err), b)
      | None \<Rightarrow>
          if v \<in> set (set_members b key) then ((0, None), b)
          else ((1, None), b\<lparr>b_sets := AList.update key (set_members b key @ [v]) (b_sets b)\<rparr>))"

definition RemoveMember :: "string \<Rightarrow> string \<Rightarrow> backend \<Rightarrow> (int \<times> error option) \<times> backend" where
  "RemoveMember key v b =
     (case b_faults b (OpRemoveMember key v) of
        Some err \<Rightarrow> ((0, Some err), b)
      | None \<Rightarrow>
          if v \<in> set (set_members b key)
          then ((1, None),
                b\<lparr>b_sets :=
                    (if removeAll v (set_members b key) = [] then AList.delete key (b_sets b)
                     else AList.update key (removeAll v (set_members b key)) (b_sets b))\<rparr>)
          else ((0, None), b))"

definition Get :: "string \<Rightarrow> string \<Rightarrow> backend \<Rightarrow> string \<times> error option" where
  "Get key field b =
     (case b_faults b (OpGet key field) of
        Some err \<Rightarrow> ([], Some err)
      | None \<Rightarrow>
          (case map_of (b_hashes b) key of
             None \<Rightarrow> ([], None)
           | Some h \<Rightarrow> (case map_of h field of None \<Rightarrow> ([], None) | Some v \<Rightarrow> (v, None))))"

definition Set :: "string \<Rightarrow> string \<Rightarrow> string \<Rightarrow> backend \<Rightarrow> error option \<times> backend" where
  "Set key field val b =
     (case b_faults b (OpSet key field val) of
        Some err \<Rightarrow> (Some err, b)
      | None \<Rightarrow>
          (let h = (case map_of (b_hashes b) key of None \<Rightarrow> [] | Some h \<Rightarrow> h)
           in (None, b\<lparr>b_hashes := AList.update key (AList.update field val h) (b_hashes b)\<rparr>)))"

definition Delete :: "string \<Rightarrow> backend \<Rightarrow> error option \<times> backend" where
  "Delete key b =
     (case b_faults b (OpDelete key) of
        Some err \<Rightarrow> (Some err, b)
      | None \<Rightarrow>
          (None, b\<lparr>b_hashes := AList.delete key (b_hashes b),
                    b_sets := AList.delete key (b_sets b),
                    b_ttls := AList.delete key (b_ttls b)\<rparr>))"

definition Expire :: "string \<Rightarrow> 64 word \<Rightarrow> backend \<Rightarrow> error option \<times> backend" where
  "Expire key ttl b =
     (case b_faults b (OpExpire key ttl) of
        Some err \<Rightarrow> (Some err, b)
      | None \<Rightarrow>
          if key \<in> set (backend_keys b)
          then (None, b\<lparr>b_ttls := AList.update key ttl (b_ttls b)\<rparr>)
          else (None, b))"

definition Notify :: "string \<Rightarrow> string \<Rightarrow> backend \<Rightarrow> error option \<times> backend" where
  "Notify channel payload b =
     (case b_faults b (OpNotify channel payload) of
        Some err \<Rightarrow> (Some err, b)
      | None \<Rightarrow> (None, b\<lparr>b_published := b_published b @ [(channel, payload)]\<rparr>))"

section \<open>The service registry (registry/registry.go)\<close>

text \<open>
  A \<open>ServiceRegistry\<close> is used below through its \<open>backend\<close> only, so the functions take
  the backend state and return it with their result. A Go result \<open>(bool, error)\<close> is a
  pair whose second component is \<open>None\<close> for \<open>nil\<close>.
\<close>

definition AppExists :: "string \<Rightarrow> string \<Rightarrow> backend \<Rightarrow> bool \<times> error option" where
  "AppExists app env b =
     (case Keys (path_Join [env, app, ''*'']) b of
        (matches, Some err) \<Rightarrow> (False, Some err)
      | (matches, None) \<Rightarrow> (length matches > 0, None))"

definition ListAssignments :: "string \<Rightarrow> string \<Rightarrow> backend \<Rightarrow> string list \<times> error option" where
  "ListAssignments env pool b = Members (path_Join [env, ''pools'', pool]) b"

fun ListPools_loop ::
  "string \<Rightarrow> backend \<Rightarrow> (string \<rightharpoonup> string list) \<Rightarrow> string list \<Rightarrow> (string \<rightharpoonup> string list) \<times> error option" where
  "ListPools_loop env b assignments [] = (assignments, None)"
| "ListPools_loop env b assignments (pool # rest) =
     (case ListAssignments env pool b of
        (members, Some err) \<Rightarrow> (assignments, Some err)
      | (members, None) \<Rightarrow> ListPools_loop env b (assignments(pool \<mapsto> members)) rest)"

definition ListPools :: "string \<Rightarrow> backend \<Rightarrow> (string \<rightharpoonup> string list) \<times> error option" where
  "ListPools env b =
     (case Members (path_Join [env, ''pools'', ''*'']) b of
        (matches, Some err) \<Rightarrow> (Map.empty, Some err)
      | (matches, None) \<Rightarrow> ListPools_loop env b Map.empty matches)"

definition PoolExists :: "string \<Rightarrow> string \<Rightarrow> backend \<Rightarrow> bool \<times> error option" where
  "PoolExists env pool b =
     (case ListPools env b of
        (pools, Some err) \<Rightarrow> (False, Some err)
      | (pools, None) \<Rightarrow> (pools pool \<noteq> None, None))"

text \<open>
  Modelled from the spec: \<open>NotifyRestart\<close> is not among the sources. The spec: every
  successful mutating operation that should cause reconvergence broadcasts the same
  fixed payload on the publish/subscribe channel; \<open>notifyChanged\<close> in notify.go
  publishes \<open>config\<close> on \<open>galaxy\<close>.
\<close>

definition NotifyRestart :: "string \<Rightarrow> string \<Rightarrow> backend \<Rightarrow> error option \<times> backend" where
  "NotifyRestart app env b = Notify ''galaxy'' ''config'' b"

definition AssignApp :: "string \<Rightarrow> string \<Rightarrow> string \<Rightarrow> backend \<Rightarrow> (bool \<times> error option) \<times> backend" where
  "AssignApp app env pool b =
     (case AppExists app env b of (appExists, err) \<Rightarrow>
        if \<not> appExists \<or> err \<noteq> None then ((False, err), b)
        else (case PoolExists env pool b of (poolExists, err) \<Rightarrow>
          if \<not> poolExists \<or> err \<noteq> None
          then ((False, Some (Failure (''pool '' @ pool @ '' does not exist''))), b)
          else (case AddMember (path_Join [env, ''pools'', pool]) app b of
                  ((added, Some err), b1) \<Rightarrow> ((False, Some err), b1)
                | ((added, None), b1) \<Rightarrow>
                    (case NotifyRestart app env b1 of
                       (Some err, b2) \<Rightarrow> ((added = 1, Some err), b2)
                     | (None, b2) \<Rightarrow> ((added = 1, None), b2)))))"

definition UnassignApp :: "string \<Rightarrow> string \<Rightarrow> string \<Rightarrow> backend \<Rightarrow> (bool \<times> error option) \<times> backend" where
  "UnassignApp app env pool b =
     (case RemoveMember (path_Join [env, ''pools'', pool]) app b of ((removed, err), b1) \<Rightarrow>
        if removed = 0 \<or> err \<noteq> None then ((False, err), b1)
        else (case NotifyRestart app env b1 of
                (Some err, b2) \<Rightarrow> ((removed = 1, Some err), b2)
              | (None, b2) \<Rightarrow> ((removed = 1, None), b2)))"

definition CreatePool :: "string \<Rightarrow> string \<Rightarrow> backend \<Rightarrow> (bool \<times> error option) \<times> backend" where
  "CreatePool name env b =
     (case AddMember (path_Join [env, ''pools'', ''*'']) name b of
        ((added, Some err), b1) \<Rightarrow> ((False, Some err), b1)
      | ((added, None), b1) \<Rightarrow> ((added = 1, None), b1))"

definition DeletePool :: "string \<Rightarrow> string \<Rightarrow> backend \<Rightarrow> (bool \<times> error option) \<times> backend" where
  "DeletePool pool env b =
     (case ListAssignments env pool b of
        (assignments, Some err) \<Rightarrow> ((False, Some err), b)
      | (assignments, None) \<Rightarrow>
          if length assignments > 0 then ((False, None), b)
          else (case RemoveMember (path_Join [env, ''pools'', ''*'']) pool b of
                  ((removed, Some err), b1) \<Rightarrow> ((False, Some err), b1)
                | ((removed, None), b1) \<Rightarrow> ((removed = 1, None), b1)))"

text \<open>
  Modelled from the spec: \<open>NewServiceConfig\<close> and \<open>SetServiceConfig\<close> are not among the
  sources. The spec: the serialized ServiceConfig of an app lives at the key
  \<open>env/appName/environment\<close>; \<open>CreateApp\<close> writes an empty ServiceConfig tagged with the
  environment name; a mutating operation returns a success flag. The config is given
  here by its name and its environment variables, each written as one field of the
  hash at that key; the first failing write is returned with \<open>false\<close>.
\<close>

fun SetFields :: "string \<Rightarrow> (string \<times> string) list \<Rightarrow> backend \<Rightarrow> error option \<times> backend" where
  "SetFields key [] b = (None, b)"
| "SetFields key ((field, val) # rest) b =
     (case Set key field val b of
        (Some err, b1) \<Rightarrow> (Some err, b1)
      | (None, b1) \<Rightarrow> SetFields key rest b1)"

definition SetServiceConfig ::
  "string \<Rightarrow> (string \<times> string) list \<Rightarrow> string \<Rightarrow> backend \<Rightarrow> (bool \<times> error option) \<times> backend" where
  "SetServiceConfig name vars env b =
     (case SetFields (path_Join [env, name, ''environment'']) vars b of
        (Some err, b1) \<Rightarrow> ((False, Some err), b1)
      | (None, b1) \<Rightarrow> ((True, None), b1))"

text \<open>\<open>emptyConfig\<close> is \<open>NewServiceConfig(app, "")\<close> with \<open>ENV\<close> set to the environment
  name: a config named \<open>app\<close> whose only variable is \<open>ENV\<close>.\<close>

definition CreateApp :: "string \<Rightarrow> string \<Rightarrow> backend \<Rightarrow> (bool \<times> error option) \<times> backend" where
  "CreateApp app env b =
     (case AppExists app env b of (appExists, err) \<Rightarrow>
        if appExists \<or> err \<noteq> None then ((False, err), b)
        else SetServiceConfig app [(''ENV'', env)] env b)"

text \<open>The caller's loop that unassigns each of the given apps from a pool, one
  \<open>UnassignApp\<close> call after the other.\<close>

fun unassignAll :: "string list \<Rightarrow> string \<Rightarrow> string \<Rightarrow> backend \<Rightarrow> backend" where
  "unassignAll [] env pool b = b"
| "unassignAll (app # apps) env pool b = unassignAll apps env pool (snd (UnassignApp app env pool b))"

text \<open>
  \<open>ListApps\<close>. \<open>GetServiceConfig\<close> is not among the sources: it is the parameter
  \<open>getcfg\<close>, which returns a config or \<open>nil\<close>, and an error or \<open>nil\<close>. The loop
  dereferences the config it gets, so \<open>nil\<close> without an error is a panic.
\<close>

type_synonym getcfg = "string \<Rightarrow> string \<Rightarrow> backend \<Rightarrow> ServiceConfig option \<times> error option"

fun ListApps_loop ::
  "getcfg \<Rightarrow> string \<Rightarrow> backend \<Rightarrow> string list \<Rightarrow> ServiceConfig list \<Rightarrow>
   (ServiceConfig list \<times> error option) outcome" where
  "ListApps_loop GetServiceConfig env b [] appList = Returns (appList, None)"
| "ListApps_loop GetServiceConfig env b (app # apps) appList =
     (let parts = strings_Split app (CHR ''/'') in
      if length parts \<noteq> 3 then ListApps_loop GetServiceConfig env b apps appList
      else if parts ! 1 = ''hosts'' then ListApps_loop GetServiceConfig env b apps appList
      else (case GetServiceConfig (parts ! 1) env b of
              (cfg, Some err) \<Rightarrow> Returns ([], Some err)
            | (None, None) \<Rightarrow> Panics ''invalid memory address or nil pointer dereference''
            | (Some cfg, None) \<Rightarrow> ListApps_loop GetServiceConfig env b apps (appList @ [cfg])))"

definition ListApps ::
  "getcfg \<Rightarrow> string \<Rightarrow> backend \<Rightarrow> (ServiceConfig list \<times> error option) outcome" where
  "ListApps GetServiceConfig env b =
     (case Keys (path_Join [env, ''*'', ''environment'']) b of
        (apps, Some err) \<Rightarrow> Returns ([], Some err)
      | (apps, None) \<Rightarrow> ListApps_loop GetServiceConfig env b apps [])"

section \<open>Service registrations (registry/serviceregistration.go)\<close>

text \<open>
  The struct \<open>ServiceRegistration\<close>. A \<open>time.Time\<close> is an instant, counted in
  nanoseconds from the zero \<open>Time\<close>. A slice or map field that may be \<open>nil\<close> is an
  option. A Go \<open>map[string]string\<close> is a finite map.
\<close>

record ServiceRegistration =
  sr_Name :: string
  sr_ExternalIP :: string
  sr_ExternalPort :: string
  sr_InternalIP :: string
  sr_InternalPort :: string
  sr_ContainerID :: string
  sr_ContainerName :: string
  sr_Image :: string
  sr_ImageId :: string
  sr_StartedAt :: Time
  sr_Expires :: Time
  sr_Path :: string
  sr_VirtualHosts :: "string list option"
  sr_Port :: string
  sr_ErrorPages :: "(string, string) fmap option"

text \<open>The zero value \<open>ServiceRegistration{}\<close>.\<close>

definition zeroRegistration :: ServiceRegistration where
  "zeroRegistration =
     \<lparr>sr_Name = [], sr_ExternalIP = [], sr_ExternalPort = [], sr_InternalIP = [],
      sr_InternalPort = [], sr_ContainerID = [], sr_ContainerName = [], sr_Image = [],
      sr_ImageId = [], sr_StartedAt = 0, sr_Expires = 0, sr_Path = [],
      sr_VirtualHosts = None, sr_Port = [], sr_ErrorPages = None\<rparr>"

definition Equals :: "ServiceRegistration \<Rightarrow> ServiceRegistration \<Rightarrow> bool" where
  "Equals s other \<longleftrightarrow>
     sr_ExternalIP s = sr_ExternalIP other \<and> sr_ExternalPort s = sr_ExternalPort other \<and>
     sr_InternalIP s = sr_InternalIP other \<and> sr_InternalPort s = sr_InternalPort other"

subsection \<open>The wire format\<close>

text \<open>
  The struct tags fix the wire format: a JSON object whose members are named by the
  tags, in field order; a field tagged \<open>omitempty\<close> is left out when it is empty (an
  empty string, a \<open>nil\<close> or empty map); \<open>Expires\<close> and \<open>Path\<close>, tagged \<open>-\<close>, are never
  written. The serialized form is modelled as that object: the list of its members,
  each a name and a value. A value is \<open>null\<close>, a string, a timestamp (a JSON string in
  the time package's text form), an array of strings or an object of strings. How
  these values are laid out as text is encoding/json's business and is not modelled.
\<close>

datatype json =
    JNull
  | JString string
  | JTime Time
  | JArray "string list"
  | JObject "(string, string) fmap"

definition omitempty :: "string \<Rightarrow> string \<Rightarrow> (string \<times> json) list" where
  "omitempty name v = (if v = [] then [] else [(name, JString v)])"

definition Marshal :: "ServiceRegistration \<Rightarrow> (string \<times> json) list" where
  "Marshal s =
     omitempty ''NAME'' (sr_Name s) @
     omitempty ''EXTERNAL_IP'' (sr_ExternalIP s) @
     omitempty ''EXTERNAL_PORT'' (sr_ExternalPort s) @
     omitempty ''INTERNAL_IP'' (sr_InternalIP s) @
     omitempty ''INTERNAL_PORT'' (sr_InternalPort s) @
     [(''CONTAINER_ID'', JString (sr_ContainerID s)),
      (''CONTAINER_NAME'', JString (sr_ContainerName s))] @
     omitempty ''IMAGE'' (sr_Image s) @
     omitempty ''IMAGE_ID'' (sr_ImageId s) @
     [(''STARTED_AT'', JTime (sr_StartedAt s)),
      (''VIRTUAL_HOSTS'', (case sr_VirtualHosts s of None \<Rightarrow> JNull | Some hosts \<Rightarrow> JArray hosts)),
      (''PORT'', JString (sr_Port s))] @
     (case sr_ErrorPages s of
        None \<Rightarrow> []
      | Some pages \<Rightarrow> if pages = fmempty then [] else [(''ERROR_PAGES'', JObject pages)])"

text \<open>
  Decoding one member into the struct: a member named by a tag sets that field when
  its value has the field's type, \<open>null\<close> leaves a string or time field as it is and
  sets a slice or map field to \<open>nil\<close>, a value of another type is an error, and a
  member with any other name is ignored. Names are compared as Marshal writes them.
\<close>

definition setString ::
  "(string \<Rightarrow> ServiceRegistration \<Rightarrow> ServiceRegistration) \<Rightarrow> string \<Rightarrow> json \<Rightarrow>
   ServiceRegistration \<Rightarrow> error + ServiceRegistration" where
  "setString upd name v s =
     (case v of
        JString x \<Rightarrow> Inr (upd x s)
      | JTime t \<Rightarrow> Inl (Failure (''json: cannot unmarshal timestamp into field '' @ name))
      | JNull \<Rightarrow> Inr s
      | JArray xs \<Rightarrow> Inl (Failure (''json: cannot unmarshal array into field '' @ name))
      | JObject m \<Rightarrow> Inl (Failure (''json: cannot unmarshal object into field '' @ name)))"

definition unmarshalMember :: "string \<times> json \<Rightarrow> ServiceRegistration \<Rightarrow> error + ServiceRegistration" where
  "unmarshalMember member s =
     (case member of (name, v) \<Rightarrow>
        if name = ''NAME'' then setString (\<lambda>x s. s\<lparr>sr_Name := x\<rparr>) name v s
        else if name = ''EXTERNAL_IP'' then setString (\<lambda>x s. s\<lparr>sr_ExternalIP := x\<rparr>) name v s
        else if name = ''EXTERNAL_PORT'' then setString (\<lambda>x s. s\<lparr>sr_ExternalPort := x\<rparr>) name v s
        else if name = ''INTERNAL_IP'' then setString (\<lambda>x s. s\<lparr>sr_InternalIP := x\<rparr>) name v s
        else if name = ''INTERNAL_PORT'' then setString (\<lambda>x s. s\<lparr>sr_InternalPort := x\<rparr>) name v s
        else if name = ''CONTAINER_ID'' then setString (\<lambda>x s. s\<lparr>sr_ContainerID := x\<rparr>) name v s
        else if name = ''CONTAINER_NAME'' then setString (\<lambda>x s. s\<lparr>sr_ContainerName := x\<rparr>) name v s
        else if name = ''IMAGE'' then setString (\<lambda>x s. s\<lparr>sr_Image := x\<rparr>) name v s
        else if name = ''IMAGE_ID'' then setString (\<lambda>x s. s\<lparr>sr_ImageId := x\<rparr>) name v s
        else if name = ''PORT'' then setString (\<lambda>x s. s\<lparr>sr_Port := x\<rparr>) name v s
        else if name = ''STARTED_AT'' then
          (case v of
             JTime t \<Rightarrow> Inr (s\<lparr>sr_StartedAt := t\<rparr>)
           | JNull \<Rightarrow> Inr s
           | JString x \<Rightarrow> Inl (Failure ''parsing time'')
           | JArray xs \<Rightarrow> Inl (Failure ''parsing time'')
           | JObject m \<Rightarrow> Inl (Failure ''parsing time''))
        else if name = ''VIRTUAL_HOSTS'' then
          (case v of
             JArray xs \<Rightarrow> Inr (s\<lparr>sr_VirtualHosts := Some xs\<rparr>)
           | JNull \<Rightarrow> Inr (s\<lparr>sr_VirtualHosts := None\<rparr>)
           | JString x \<Rightarrow> Inl (Failure (''json: cannot unmarshal string into field '' @ name))
           | JTime t \<Rightarrow> Inl (Failure (''json: cannot unmarshal string into field '' @ name))
           | JObject m \<Rightarrow> Inl (Failure (''json: cannot unmarshal object into field '' @ name)))
        else if name = ''ERROR_PAGES'' then
          (case v of
             JObject m \<Rightarrow>
               Inr (s\<lparr>sr_ErrorPages :=
                       Some (case sr_ErrorPages s of None \<Rightarrow> m | Some old \<Rightarrow> old ++\<^sub>f m)\<rparr>)
           | JNull \<Rightarrow> Inr (s\<lparr>sr_ErrorPages := None\<rparr>)
           | JString x \<Rightarrow> Inl (Failure (''json: cannot unmarshal string into field '' @ name))
           | JTime t \<Rightarrow> Inl (Failure (''json: cannot unmarshal string into field '' @ name))
           | JArray xs \<Rightarrow> Inl (Failure (''json: cannot unmarshal array into field '' @ name)))
        else Inr s)"

fun Unmarshal :: "(string \<times> json) list \<Rightarrow> ServiceRegistration \<Rightarrow> error + ServiceRegistration" where
  "Unmarshal [] s = Inr s"
| "Unmarshal (member # members) s =
     (case unmarshalMember member s of
        Inl err \<Rightarrow> Inl err
      | Inr s' \<Rightarrow> Unmarshal members s')"

subsection \<open>Listing registrations (registry/registry.go, later revision)\<close>

text \<open>
  \<open>json.Unmarshal\<close> of a stored text: \<open>parse\<close> stands for encoding/json reading the
  text as an object (an error when the text is not one), and the members are then
  decoded into the struct as above.
\<close>

type_synonym parser = "string \<Rightarrow> error + (string \<times> json) list"

definition json_Unmarshal :: "parser \<Rightarrow> string \<Rightarrow> ServiceRegistration \<Rightarrow> error + ServiceRegistration" where
  "json_Unmarshal parse text s =
     (case parse text of
        Inl err \<Rightarrow> Inl err
      | Inr members \<Rightarrow> Unmarshal members s)"

text \<open>The warnings \<open>ListRegistrations\<close> logs, with the key and the error of each.\<close>

datatype warning =
    UnableToGetLocation string error
  | UnableToUnmarshal string error

fun ListRegistrations_loop ::
  "parser \<Rightarrow> backend \<Rightarrow> string list \<Rightarrow> ServiceRegistration list \<Rightarrow> warning list \<Rightarrow>
   ServiceRegistration list \<times> warning list" where
  "ListRegistrations_loop parse b [] regList warnings = (regList, warnings)"
| "ListRegistrations_loop parse b (key # keys) regList warnings =
     (case Get key ''location'' b of
        (val, Some err) \<Rightarrow>
          ListRegistrations_loop parse b keys regList (warnings @ [UnableToGetLocation key err])
      | (val, None) \<Rightarrow>
          (case json_Unmarshal parse val (zeroRegistration\<lparr>sr_Name := path_Base key\<rparr>) of
             Inl err \<Rightarrow>
               ListRegistrations_loop parse b keys regList (warnings @ [UnableToUnmarshal key err])
           | Inr svcReg \<Rightarrow>
               ListRegistrations_loop parse b keys (regList @ [svcReg\<lparr>sr_Path := key\<rparr>]) warnings))"

definition ListRegistrations ::
  "parser \<Rightarrow> string \<Rightarrow> backend \<Rightarrow> (ServiceRegistration list \<times> error option) \<times> warning list" where
  "ListRegistrations parse env b =
     (case Keys (path_Join [env, ''*'', ''hosts'', ''*'', ''*'', ''*'']) b of
        (keys, Some err) \<Rightarrow> (([], Some err), [])
      | (keys, None) \<Rightarrow>
          (case ListRegistrations_loop parse b keys [] [] of
             (regList, warnings) \<Rightarrow> ((regList, None), warnings)))"

subsection \<open>Registering a container (registry/registry.go, later revision)\<close>

text \<open>
  A \<open>*docker.Container\<close> as the engine's inspect call returns it, with its \<open>Config\<close>,
  \<open>NetworkSettings\<close> and \<open>State\<close> populated. \<open>NetworkSettings.Ports\<close> is a Go map from
  port (\<open>80/tcp\<close>) to bindings; a range loop visits a map in an order of its own, and
  the list gives the entries in the order the loop visits them.
\<close>

record PortBinding =
  pb_HostIp :: string
  pb_HostPort :: string

record Config =
  cfg_Image :: string
  cfg_Env :: "string list"

record NetworkSettings =
  ns_IPAddress :: string
  ns_Ports :: "(string \<times> PortBinding list) list"

record State =
  st_Running :: bool

record Container =
  c_ID :: string
  c_Name :: string
  c_Created :: Time
  c_Config :: Config
  c_NetworkSettings :: NetworkSettings
  c_State :: State

text \<open>\<open>Port.Port()\<close> of the engine client: the part of the port before the slash.\<close>

definition Port_Port :: "string \<Rightarrow> string" where
  "Port_Port p = hd (strings_Split p (CHR ''/''))"

text \<open>The loop of \<open>newServiceRegistration\<close>: the external and internal port of the first
  visited port that has a binding, both empty when there is none.\<close>

fun firstBoundPort :: "(string \<times> PortBinding list) list \<Rightarrow> string \<times> string" where
  "firstBoundPort [] = ([], [])"
| "firstBoundPort ((k, v) # rest) =
     (if length v > 0 then (pb_HostPort (hd v), Port_Port k) else firstBoundPort rest)"

definition newServiceRegistration :: "Container \<Rightarrow> string \<Rightarrow> ServiceRegistration" where
  "newServiceRegistration container hostIP =
     (case firstBoundPort (ns_Ports (c_NetworkSettings container)) of
        (externalPort, internalPort) \<Rightarrow>
          (let serviceRegistration =
                 zeroRegistration\<lparr>sr_ContainerName := c_Name container,
                                  sr_ContainerID := c_ID container,
                                  sr_StartedAt := c_Created container,
                                  sr_Image := cfg_Image (c_Config container)\<rparr>
           in if externalPort \<noteq> [] \<and> internalPort \<noteq> []
              then serviceRegistration\<lparr>sr_ExternalIP := hostIP,
                                       sr_InternalIP := ns_IPAddress (c_NetworkSettings container),
                                       sr_ExternalPort := externalPort,
                                       sr_InternalPort := internalPort\<rparr>
              else serviceRegistration))"

text \<open>
  \<open>EnvFor\<close>: each item of \<open>Config.Env\<close> is cut at its first \<open>=\<close>; a later item
  replaces an earlier one with the same key. For an item without \<open>=\<close> the index is
  \<open>-1\<close> and the slice expression panics.
\<close>

fun EnvFor_loop :: "string list \<Rightarrow> (string, string) fmap \<Rightarrow> (string, string) fmap outcome" where
  "EnvFor_loop [] env = Returns env"
| "EnvFor_loop (item # items) env =
     (if CHR ''='' \<notin> set item then Panics ''slice bounds out of range''
      else EnvFor_loop items
             (fmupd (takeWhile (\<lambda>c. c \<noteq> CHR ''='') item)
                    (tl (dropWhile (\<lambda>c. c \<noteq> CHR ''='') item)) env))"

definition EnvFor :: "Container \<Rightarrow> (string, string) fmap outcome" where
  "EnvFor container = EnvFor_loop (cfg_Env (c_Config container)) fmempty"

text \<open>Reading a Go map: an absent key reads as the empty string.\<close>

definition lookupEnv :: "(string, string) fmap \<Rightarrow> string \<Rightarrow> string" where
  "lookupEnv environment key = (case fmlookup environment key of None \<Rightarrow> [] | Some v \<Rightarrow> v)"

text \<open>\<open>strings.TrimSpace\<close>, for the white space of ASCII.\<close>

definition isSpace :: "char \<Rightarrow> bool" where
  "isSpace c \<longleftrightarrow> c \<in> {CHR '' '', CHR 0x09, CHR 0x0A, CHR 0x0B, CHR 0x0C, CHR 0x0D}"

definition strings_TrimSpace :: "string \<Rightarrow> string" where
  "strings_TrimSpace s = rev (dropWhile isSpace (rev (dropWhile isSpace s)))"

text \<open>
  \<open>RegisterService\<close>. Its parameters beside those of the Go method:
  \<open>scansVhostCode key\<close> says whether \<open>fmt.Sscanf(key, "VIRTUAL_HOST_%d", &code)\<close> scans a
  number; \<open>render\<close> is encoding/json writing the members as text, or failing; \<open>ttl\<close> is
  the registry's \<open>TTL\<close> (a \<open>uint64\<close>) and \<open>now\<close> the clock when \<open>Expires\<close> is computed.
  \<open>time.Duration(r.TTL) * time.Second\<close> is a 64-bit product. \<open>container.ID[0:12]\<close>
  panics for an id of fewer than twelve characters.
\<close>

definition RegisterService ::
  "(string \<Rightarrow> bool) \<Rightarrow> ((string \<times> json) list \<Rightarrow> string \<times> error option) \<Rightarrow> 64 word \<Rightarrow> Time \<Rightarrow>
   string \<Rightarrow> string \<Rightarrow> string \<Rightarrow> Container \<Rightarrow> backend \<Rightarrow>
   ((ServiceRegistration option \<times> error option) \<times> backend) outcome" where
  "RegisterService scansVhostCode render ttl now env pool hostIP container b =
     (case EnvFor container of
        Panics msg \<Rightarrow> Panics msg
      | Returns environment \<Rightarrow>
          (let name = lookupEnv environment ''GALAXY_APP'' in
           if length (c_ID container) < 12 then Panics ''slice bounds out of range''
           else if name = [] then
             Returns ((None, Some (Failure (''GALAXY_APP not set on container '' @ take 12 (c_ID container)))), b)
           else
             (let registrationPath = path_Join [env, pool, ''hosts'', hostIP, name, take 12 (c_ID container)];
                  vhosts = lookupEnv environment ''VIRTUAL_HOST'';
                  errorPages = fmfilter scansVhostCode environment;
                  serviceRegistration =
                    (newServiceRegistration container hostIP)
                      \<lparr>sr_Name := name,
                       sr_ImageId := cfg_Image (c_Config container)\<rparr>;
                  serviceRegistration =
                    (if strings_TrimSpace vhosts \<noteq> []
                     then serviceRegistration\<lparr>sr_VirtualHosts := Some (strings_Split vhosts (CHR '',''))\<rparr>
                     else serviceRegistration);
                  serviceRegistration =
                    (if errorPages \<noteq> fmempty
                     then serviceRegistration\<lparr>sr_ErrorPages := Some errorPages\<rparr>
                     else serviceRegistration);
                  serviceRegistration =
                    serviceRegistration\<lparr>sr_Port := lookupEnv environment ''GALAXY_PORT''\<rparr>
              in (case render (Marshal serviceRegistration) of
                    (jsonReg, Some err) \<Rightarrow> Returns ((None, Some err), b)
                  | (jsonReg, None) \<Rightarrow>
                      (case Set registrationPath ''location'' jsonReg b of
                         (Some err, b1) \<Rightarrow> Returns ((None, Some err), b1)
                       | (None, b1) \<Rightarrow>
                           (case Expire registrationPath ttl b1 of
                              (Some err, b2) \<Rightarrow> Returns ((None, Some err), b2)
                            | (None, b2) \<Rightarrow>
                                Returns ((Some (serviceRegistration
                                           \<lparr>sr_Expires := now + sint (ttl * 1000000000)\<rparr>), None),
                                         b2)))))))"

subsection \<open>What a listing is expected to return\<close>

text \<open>The registration stored at a key, when its \<open>location\<close> can be fetched and
  decoded: the record a listing that skips unreadable records returns for that key.\<close>

definition readableRegistration :: "parser \<Rightarrow> backend \<Rightarrow> string \<Rightarrow> ServiceRegistration option" where
  "readableRegistration parse b key =
     (case Get key ''location'' b of
        (val, Some err) \<Rightarrow> None
      | (val, None) \<Rightarrow>
          (case json_Unmarshal parse val (zeroRegistration\<lparr>sr_Name := path_Base key\<rparr>) of
             Inl err \<Rightarrow> None
           | Inr svcReg \<Rightarrow> Some (svcReg\<lparr>sr_Path := key\<rparr>)))"

text \<open>The app names \<open>ListApps\<close> looks up: the middle part of every key that has three
  parts and is not a host key.\<close>

definition appNames :: "string list \<Rightarrow> string list" where
  "appNames keys =
     map (\<lambda>key. strings_Split key (CHR ''/'') ! 1)
       (filter (\<lambda>key. length (strings_Split key (CHR ''/'')) = 3 \<and>
                       strings_Split key (CHR ''/'') ! 1 \<noteq> ''hosts'') keys)"

text \<open>The values a call returned, when it did not panic.\<close>

definition resultOf :: "('a \<times> backend) outcome \<Rightarrow> 'a option" where
  "resultOf r = (case r of Returns (res, b) \<Rightarrow> Some res | Panics msg \<Rightarrow> None)"

section \<open>The container engine\<close>

text \<open>
  The runtime drives the container engine through the engine client, and reads the
  operator's account and Docker auth file. None of that is code of the repository; it
  is the environment of the functions verified below, and the model of it is kept
  plain. The engine holds containers and local images. A container is found by its id
  or by its name, which the engine reports with a leading slash. A created container
  gets the next id of the engine's supply and is not running; starting it makes it run
  unless the process of its image exits at once; stopping it makes it not run;
  removing it deletes it. A pull brings in the images the registry holds for the
  repository. Every call is appended to \<open>e_calls\<close>. Any call can fail: \<open>e_fault\<close>
  gives, for the number of calls made so far and the call, the error the client
  returns, its own not-found errors included; a failed call has no effect. A stop call
  on a container in \<open>e_hanging\<close> does not return in time.
\<close>

record Image =
  img_ID :: string

record PullImageOptions =
  po_Repository :: string
  po_Registry :: string

record AuthConfiguration =
  ac_Username :: string
  ac_Password :: string
  ac_Email :: string

record APIContainers =
  api_ID :: string
  api_Image :: string
  api_Created :: "64 word"
  api_Names :: "string list"

datatype call =
    CallInspectImage string
  | CallPullImage PullImageOptions AuthConfiguration
  | CallInspectContainer string
  | CallCreateContainer string string "string list"
  | CallStartContainer string
  | CallStopContainer string nat
  | CallRemoveContainer string
  | CallListContainers
  | CallUserCurrent
  | CallLoadConfig string

record world =
  e_containers :: "Container list"
  e_images :: "(string \<times> Image) list"
  e_registry :: "string \<Rightarrow> (string \<times> Image) list"
  e_nextID :: "nat \<Rightarrow> string"
  e_time :: Time
  e_exiting :: "string \<Rightarrow> bool"
  e_hanging :: "string set"
  e_calls :: "call list"
  e_fault :: "nat \<Rightarrow> call \<Rightarrow> error option"
  e_homeDir :: string
  e_authFile :: "string \<Rightarrow> AuthConfiguration"
  e_listApps :: "(ServiceConfig list \<times> error option) outcome"
  blacklistedContainerId :: "string set"

definition called :: "call \<Rightarrow> world \<Rightarrow> world" where
  "called c w = w\<lparr>e_calls := e_calls w @ [c]\<rparr>"

definition fault :: "world \<Rightarrow> call \<Rightarrow> error option" where
  "fault w c = e_fault w (length (e_calls w)) c"

definition isContainer :: "string \<Rightarrow> Container \<Rightarrow> bool" where
  "isContainer key c \<longleftrightarrow> c_ID c = key \<or> c_Name c = ''/'' @ key"

fun updateFirst :: "('a \<Rightarrow> bool) \<Rightarrow> ('a \<Rightarrow> 'a) \<Rightarrow> 'a list \<Rightarrow> 'a list" where
  "updateFirst P f [] = []"
| "updateFirst P f (x # xs) = (if P x then f x # xs else x # updateFirst P f xs)"

definition InspectImage :: "string \<Rightarrow> world \<Rightarrow> (Image option \<times> error option) \<times> world" where
  "InspectImage name w =
     (case fault w (CallInspectImage name) of
        Some err \<Rightarrow> ((None, Some err), called (CallInspectImage name) w)
      | None \<Rightarrow> ((map_of (e_images w) name, None), called (CallInspectImage name) w))"

definition engine_PullImage :: "PullImageOptions \<Rightarrow> AuthConfiguration \<Rightarrow> world \<Rightarrow> error option \<times> world" where
  "engine_PullImage opts auth w =
     (case fault w (CallPullImage opts auth) of
        Some err \<Rightarrow> (Some err, called (CallPullImage opts auth) w)
      | None \<Rightarrow>
          (None, (called (CallPullImage opts auth) w)
                   \<lparr>e_images := e_registry w (po_Repository opts) @ e_images w\<rparr>))"

definition InspectContainer :: "string \<Rightarrow> world \<Rightarrow> (Container option \<times> error option) \<times> world" where
  "InspectContainer key w =
     (case fault w (CallInspectContainer key) of
        Some err \<Rightarrow> ((None, Some err), called (CallInspectContainer key) w)
      | None \<Rightarrow>
          (case find (isContainer key) (e_containers w) of
             None \<Rightarrow> ((None, Some (NoSuchContainer key)), called (CallInspectContainer key) w)
           | Some c \<Rightarrow> ((Some c, None), called (CallInspectContainer key) w)))"

definition CreateContainer ::
  "string \<Rightarrow> string \<Rightarrow> string list \<Rightarrow> world \<Rightarrow> (Container option \<times> error option) \<times> world" where
  "CreateContainer name img env w =
     (case fault w (CallCreateContainer name img env) of
        Some err \<Rightarrow> ((None, Some err), called (CallCreateContainer name img env) w)
      | None \<Rightarrow>
          if \<exists>c\<in>set (e_containers w). c_Name c = ''/'' @ name
          then ((None, Some (Failure ''Conflict: the name is already in use'')),
                called (CallCreateContainer name img env) w)
          else (let c = \<lparr>c_ID = e_nextID w (length (e_containers w)),
                          c_Name = ''/'' @ name,
                          c_Created = e_time w,
                          c_Config = \<lparr>cfg_Image = img, cfg_Env = env\<rparr>,
                          c_NetworkSettings = \<lparr>ns_IPAddress = [], ns_Ports = []\<rparr>,
                          c_State = \<lparr>st_Running = False\<rparr>\<rparr>
                in ((Some c, None),
                    (called (CallCreateContainer name img env) w)
                      \<lparr>e_containers := e_containers w @ [c]\<rparr>)))"

definition StartContainer :: "string \<Rightarrow> world \<Rightarrow> error option \<times> world" where
  "StartContainer key w =
     (case fault w (CallStartContainer key) of
        Some err \<Rightarrow> (Some err, called (CallStartContainer key) w)
      | None \<Rightarrow>
          (case find (isContainer key) (e_containers w) of
             None \<Rightarrow> (Some (NoSuchContainer key), called (CallStartContainer key) w)
           | Some c \<Rightarrow>
               (None, (called (CallStartContainer key) w)
                        \<lparr>e_containers :=
                           updateFirst (isContainer key)
                             (\<lambda>c. c\<lparr>c_State := \<lparr>st_Running = \<not> e_exiting w (cfg_Image (c_Config c))\<rparr>\<rparr>)
                             (e_containers w)\<rparr>)))"

text \<open>What the wait on a stop call ends with: the call's result, or the timeout.\<close>

datatype stopped = StopReturned "error option" | StopTimedOut

definition StopContainer :: "string \<Rightarrow> nat \<Rightarrow> world \<Rightarrow> stopped \<times> world" where
  "StopContainer key timeout w =
     (case fault w (CallStopContainer key timeout) of
        Some err \<Rightarrow> (StopReturned (Some err), called (CallStopContainer key timeout) w)
      | None \<Rightarrow>
          if key \<in> e_hanging w then (StopTimedOut, called (CallStopContainer key timeout) w)
          else (case find (isContainer key) (e_containers w) of
                  None \<Rightarrow> (StopReturned (Some (NoSuchContainer key)),
                            called (CallStopContainer key timeout) w)
                | Some c \<Rightarrow>
                    (StopReturned None,
                     (called (CallStopContainer key timeout) w)
                       \<lparr>e_containers :=
                          updateFirst (isContainer key)
                            (\<lambda>c. c\<lparr>c_State := \<lparr>st_Running = False\<rparr>\<rparr>)
                            (e_containers w)\<rparr>)))"

definition RemoveContainer :: "string \<Rightarrow> world \<Rightarrow> error option \<times> world" where
  "RemoveContainer key w =
     (case fault w (CallRemoveContainer key) of
        Some err \<Rightarrow> (Some err, called (CallRemoveContainer key) w)
      | None \<Rightarrow>
          (case find (isContainer key) (e_containers w) of
             None \<Rightarrow> (Some (NoSuchContainer key), called (CallRemoveContainer key) w)
           | Some c \<Rightarrow>
               if st_Running (c_State c)
               then (Some (Failure ''Conflict: the container is running''),
                     called (CallRemoveContainer key) w)
               else (None, (called (CallRemoveContainer key) w)
                             \<lparr>e_containers := remove1 c (e_containers w)\<rparr>)))"

text \<open>
  The Unix time of an instant, in seconds, as an \<open>int64\<close>: the zero \<open>Time\<close> is
  62135596800 seconds before the Unix epoch.
\<close>

definition Unix :: "Time \<Rightarrow> 64 word" where
  "Unix t = word_of_int (t div 1000000000 - 62135596800)"

definition apiContainer :: "Container \<Rightarrow> APIContainers" where
  "apiContainer c =
     \<lparr>api_ID = c_ID c, api_Image = cfg_Image (c_Config c), api_Created = Unix (c_Created c),
      api_Names = (if c_Name c = [] then [] else [c_Name c])\<rparr>"

text \<open>\<open>ListContainers\<close> with \<open>All: false\<close>: the running containers.\<close>

definition ListContainers :: "world \<Rightarrow> (APIContainers list \<times> error option) \<times> world" where
  "ListContainers w =
     (case fault w CallListContainers of
        Some err \<Rightarrow> (([], Some err), called CallListContainers w)
      | None \<Rightarrow>
          ((map apiContainer (filter (\<lambda>c. st_Running (c_State c)) (e_containers w)), None),
           called CallListContainers w))"

text \<open>\<open>user.Current()\<close> and \<open>auth.LoadConfig(home)\<close>: the operator's home directory and
  the credentials of the auth file found there, by registry.\<close>

definition user_Current :: "world \<Rightarrow> (string \<times> error option) \<times> world" where
  "user_Current w =
     (case fault w CallUserCurrent of
        Some err \<Rightarrow> (([], Some err), called CallUserCurrent w)
      | None \<Rightarrow> ((e_homeDir w, None), called CallUserCurrent w))"

definition auth_LoadConfig ::
  "string \<Rightarrow> world \<Rightarrow> ((string \<Rightarrow> AuthConfiguration) option \<times> error option) \<times> world" where
  "auth_LoadConfig home w =
     (case fault w (CallLoadConfig home) of
        Some err \<Rightarrow> ((None, Some err), called (CallLoadConfig home) w)
      | None \<Rightarrow> ((Some (e_authFile w), None), called (CallLoadConfig home) w))"

section \<open>The service runtime (runtime/runtime.go)\<close>

text \<open>
  The fields of \<open>ServiceRuntime\<close> the functions read: \<open>authConfig\<close>, which may be
  \<open>nil\<close>, and \<open>shuttleHost\<close>. \<open>utils.SplitDockerImage\<close> is not among the sources: it is
  the parameter \<open>SplitDockerImage\<close>, returning the registry, the repository and the tag
  of an image name; the registry is empty for the default registry.
\<close>

record ServiceRuntime =
  authConfig :: "(string \<Rightarrow> AuthConfiguration) option"
  shuttleHost :: string

type_synonym splitter = "string \<Rightarrow> string \<times> string \<times> string"

definition PullImage ::
  "splitter \<Rightarrow> ServiceRuntime \<Rightarrow> string \<Rightarrow> world \<Rightarrow> ((Image option \<times> error option) \<times> world) outcome" where
  "PullImage SplitDockerImage s version w =
     (case InspectImage version w of
        ((img, Some err), w1) \<Rightarrow> Returns ((None, Some err), w1)
      | ((Some img, None), w1) \<Rightarrow> Returns ((Some img, None), w1)
      | ((None, None), w1) \<Rightarrow>
          (case SplitDockerImage version of (registry, repository, tag) \<Rightarrow>
             if registry \<noteq> [] \<and> authConfig s = None then
               (case user_Current w1 of
                  ((currentUser, Some err), w2) \<Rightarrow> Panics ''user.Current''
                | ((currentUser, None), w2) \<Rightarrow>
                    (case auth_LoadConfig currentUser w2 of
                       ((loaded, Some err), w3) \<Rightarrow> Panics ''auth.LoadConfig''
                     | ((None, None), w3) \<Rightarrow> Panics ''invalid memory address or nil pointer dereference''
                     | ((Some loadedConfig, None), w3) \<Rightarrow>
                         (case engine_PullImage
                                 \<lparr>po_Repository = registry @ ''/'' @ repository, po_Registry = registry\<rparr>
                                 (loadedConfig registry) w3 of
                            (Some err, w4) \<Rightarrow> Returns ((None, Some err), w4)
                          | (None, w4) \<Rightarrow> Returns (InspectImage version w4))))
             else
               (case engine_PullImage
                       \<lparr>po_Repository = repository, po_Registry = []\<rparr>
                       \<lparr>ac_Username = [], ac_Password = [], ac_Email = []\<rparr> w1 of
                  (Some err, w2) \<Rightarrow> Returns ((None, Some err), w2)
                | (None, w2) \<Rightarrow> Returns (InspectImage version w2))))"

text \<open>\<open>strings.ToUpper\<close>, for the letters of ASCII, and \<open>strings.TrimPrefix\<close>.\<close>

definition toUpper :: "char \<Rightarrow> char" where
  "toUpper c =
     (if (97 :: nat) \<le> of_char c \<and> (of_char c :: nat) \<le> 122
      then char_of ((of_char c :: nat) - 32) else c)"

definition strings_ToUpper :: "string \<Rightarrow> string" where
  "strings_ToUpper s = map toUpper s"

definition strings_TrimPrefix :: "string \<Rightarrow> string \<Rightarrow> string" where
  "strings_TrimPrefix s prefix =
     (if take (length prefix) s = prefix then drop (length prefix) s else s)"

text \<open>The environment \<open>Start\<close> gives the container: the config's own variables, in
  the order the loop visits them, then one address variable for every port of every
  listed app.\<close>

definition ownVars :: "ServiceConfig \<Rightarrow> string list" where
  "ownVars serviceConfig =
     map (\<lambda>(key, val). strings_ToUpper key @ ''='' @ val) (sc_Env serviceConfig)"

definition addrVars :: "ServiceRuntime \<Rightarrow> ServiceConfig list \<Rightarrow> string list" where
  "addrVars s serviceConfigs =
     concat (map (\<lambda>config.
        map (\<lambda>port. strings_ToUpper (sc_Name config) @ ''_ADDR_'' @ port @ ''='' @
                      shuttleHost s @ '':'' @ port) (sc_Ports config)) serviceConfigs)"

text \<open>The loop at the end of \<open>Start\<close>: \<open>n\<close> more inspections, one second apart; \<open>latest\<close>
  is the result of the inspection before.\<close>

fun pollStarted ::
  "nat \<Rightarrow> string \<Rightarrow> Container option \<times> error option \<Rightarrow> world \<Rightarrow>
   ((Container option \<times> error option) \<times> world) outcome" where
  "pollStarted 0 key latest w = Returns (latest, w)"
| "pollStarted (Suc n) key latest w =
     (case InspectContainer key w of
        ((None, err), w1) \<Rightarrow> Panics ''invalid memory address or nil pointer dereference''
      | ((Some startedContainer, err), w1) \<Rightarrow>
          if \<not> st_Running (c_State startedContainer)
          then Returns ((None, Some (Failure ''Container stopped unexpectedly'')), w1)
          else pollStarted n key (Some startedContainer, err) w1)"

definition startAndPoll ::
  "Container \<Rightarrow> world \<Rightarrow> ((Container option \<times> error option) \<times> world) outcome" where
  "startAndPoll container w =
     (case StartContainer (c_ID container) w of
        (Some err, w1) \<Rightarrow> Returns ((Some container, Some err), w1)
      | (None, w1) \<Rightarrow>
          (case InspectContainer (c_ID container) w1 of
             (inspected, w2) \<Rightarrow> pollStarted 5 (c_ID container) inspected w2))"

definition Start ::
  "splitter \<Rightarrow> ServiceRuntime \<Rightarrow> ServiceConfig \<Rightarrow> world \<Rightarrow>
   ((Container option \<times> error option) \<times> world) outcome" where
  "Start SplitDockerImage s serviceConfig w =
     (case PullImage SplitDockerImage s (sc_Version serviceConfig) w of
        Panics msg \<Rightarrow> Panics msg
      | Returns ((img, Some err), w1) \<Rightarrow> Returns ((None, Some err), w1)
      | Returns ((img, None), w1) \<Rightarrow>
          (case e_listApps w1 of
             Panics msg \<Rightarrow> Panics msg
           | Returns (serviceConfigs, Some err) \<Rightarrow> Returns ((None, Some err), w1)
           | Returns (serviceConfigs, None) \<Rightarrow>
               (case InspectContainer (sc_ContainerName serviceConfig) w1 of
                  ((container, Some (Failure msg)), w2) \<Rightarrow> Returns ((None, Some (Failure msg)), w2)
                | ((Some container, err), w2) \<Rightarrow> startAndPoll container w2
                | ((None, err), w2) \<Rightarrow>
                    (case CreateContainer (sc_ContainerName serviceConfig) (sc_Version serviceConfig)
                            (ownVars serviceConfig @ addrVars s serviceConfigs) w2 of
                       ((created, Some err), w3) \<Rightarrow> Returns ((None, Some err), w3)
                     | ((None, None), w3) \<Rightarrow> Panics ''invalid memory address or nil pointer dereference''
                     | ((Some container, None), w3) \<Rightarrow> startAndPoll container w3))))"

definition StartIfNotRunning ::
  "splitter \<Rightarrow> ServiceRuntime \<Rightarrow> ServiceConfig \<Rightarrow> world \<Rightarrow>
   ((bool \<times> Container option \<times> error option) \<times> world) outcome" where
  "StartIfNotRunning SplitDockerImage s serviceConfig w =
     (case InspectContainer (sc_ContainerName serviceConfig) w of
        ((found, err), w1) \<Rightarrow>
          (let started = (case Start SplitDockerImage s serviceConfig w1 of
                            Panics msg \<Rightarrow> Panics msg
                          | Returns ((container, err), w2) \<Rightarrow> Returns ((True, container, err), w2))
           in case found of
                None \<Rightarrow> started
              | Some container \<Rightarrow>
                  (case err of
                     Some (NoSuchContainer key) \<Rightarrow> started
                   | Some (Failure msg) \<Rightarrow> Returns ((False, None, Some (Failure msg)), w1)
                   | None \<Rightarrow>
                       if \<not> sc_IsContainerVersion serviceConfig (strings_TrimPrefix (c_Name container) ''/'')
                          \<and> sc_ContainerName serviceConfig = c_Name container
                       then Returns ((False, Some container, None), w1)
                       else if strings_TrimPrefix (c_Name container) ''/'' \<noteq> sc_ContainerName serviceConfig
                       then started
                       else Returns ((False, Some container, None), w1))))"

text \<open>
  \<open>StopAllButLatest\<close>. The inner loop, for one service config: \<open>registry\<close> and
  \<open>repository\<close> are those of the config's version, \<open>latestContainer\<close> is what inspecting
  the config's container name returned, \<open>now\<close> is \<open>time.Now().Unix()\<close>. The stop call
  runs in a goroutine, and the \<open>select\<close> takes its result or, after 20 seconds, the
  timeout: \<open>StopContainer\<close> of the engine model answers with the one or the other.
  The result of \<open>RemoveContainer\<close> is dropped. \<open>latestContainer.ID\<close> is a \<open>nil\<close>
  dereference when the inspection returned no container, and \<open>container.ID[0:12]\<close>
  panics for a short id.
\<close>

fun stopSuperseded ::
  "splitter \<Rightarrow> ServiceConfig \<Rightarrow> Container option \<Rightarrow> 64 word \<Rightarrow> 64 word \<Rightarrow>
   APIContainers list \<Rightarrow> world \<Rightarrow> world outcome" where
  "stopSuperseded SplitDockerImage serviceConfig latestContainer now stopCutoff [] w = Returns w"
| "stopSuperseded SplitDockerImage serviceConfig latestContainer now stopCutoff (container # containers) w =
     (if length (api_Names container) = 0
      then stopSuperseded SplitDockerImage serviceConfig latestContainer now stopCutoff containers w
      else if \<not> sc_IsContainerVersion serviceConfig (strings_TrimPrefix (hd (api_Names container)) ''/'')
      then stopSuperseded SplitDockerImage serviceConfig latestContainer now stopCutoff containers w
      else if fst (SplitDockerImage (api_Image container)) = fst (SplitDockerImage (sc_Version serviceConfig))
              \<and> fst (snd (SplitDockerImage (api_Image container))) =
                  fst (snd (SplitDockerImage (sc_Version serviceConfig)))
      then (case latestContainer of
              None \<Rightarrow> Panics ''invalid memory address or nil pointer dereference''
            | Some latest \<Rightarrow>
                if api_ID container \<noteq> c_ID latest \<and> api_Created container <s now - stopCutoff
                then
                  if api_ID container \<in> blacklistedContainerId w
                  then stopSuperseded SplitDockerImage serviceConfig latestContainer now stopCutoff containers w
                  else if length (api_ID container) < 12 then Panics ''slice bounds out of range''
                  else (case StopContainer (api_ID container) 10 w of
                          (StopReturned (Some err), w1) \<Rightarrow>
                            stopSuperseded SplitDockerImage serviceConfig latestContainer now stopCutoff
                              containers w1
                        | (StopTimedOut, w1) \<Rightarrow>
                            stopSuperseded SplitDockerImage serviceConfig latestContainer now stopCutoff
                              containers
                              (w1\<lparr>blacklistedContainerId :=
                                    insert (api_ID container) (blacklistedContainerId w1)\<rparr>)
                        | (StopReturned None, w1) \<Rightarrow>
                            (case RemoveContainer (api_ID container) w1 of
                               (err, w2) \<Rightarrow>
                                 stopSuperseded SplitDockerImage serviceConfig latestContainer now
                                   stopCutoff containers w2))
                else stopSuperseded SplitDockerImage serviceConfig latestContainer now stopCutoff containers w)
      else stopSuperseded SplitDockerImage serviceConfig latestContainer now stopCutoff containers w)"

fun stopForConfigs ::
  "splitter \<Rightarrow> 64 word \<Rightarrow> 64 word \<Rightarrow> APIContainers list \<Rightarrow> ServiceConfig list \<Rightarrow> world \<Rightarrow>
   world outcome" where
  "stopForConfigs SplitDockerImage now stopCutoff containers [] w = Returns w"
| "stopForConfigs SplitDockerImage now stopCutoff containers (serviceConfig # serviceConfigs) w =
     (case InspectContainer (sc_ContainerName serviceConfig) w of
        ((latestContainer, Some (NoSuchContainer key)), w1) \<Rightarrow>
          stopForConfigs SplitDockerImage now stopCutoff containers serviceConfigs w1
      | ((latestContainer, err), w1) \<Rightarrow>
          (case stopSuperseded SplitDockerImage serviceConfig latestContainer now stopCutoff containers w1 of
             Panics msg \<Rightarrow> Panics msg
           | Returns w2 \<Rightarrow> stopForConfigs SplitDockerImage now stopCutoff containers serviceConfigs w2))"

definition StopAllButLatest :: "splitter \<Rightarrow> 64 word \<Rightarrow> 64 word \<Rightarrow> world \<Rightarrow> (error option \<times> world) outcome" where
  "StopAllButLatest SplitDockerImage now stopCutoff w =
     (case e_listApps w of
        Panics msg \<Rightarrow> Panics msg
      | Returns (serviceConfigs, Some err) \<Rightarrow> Returns (Some err, w)
      | Returns (serviceConfigs, None) \<Rightarrow>
          (case ListContainers w of
             ((containers, Some err), w1) \<Rightarrow> Returns (Some err, w1)
           | ((containers, None), w1) \<Rightarrow>
               (case stopForConfigs SplitDockerImage now stopCutoff containers serviceConfigs w1 of
                  Panics msg \<Rightarrow> Panics msg
                | Returns w2 \<Rightarrow> Returns (None, w2))))"

subsection \<open>Observing a run\<close>

text \<open>The engine calls made between a world and a later one, and what kind they are.\<close>

definition callsSince :: "world \<Rightarrow> world \<Rightarrow> call list" where
  "callsSince w w' = drop (length (e_calls w)) (e_calls w')"

fun isCreate :: "call \<Rightarrow> bool" where
  "isCreate (CallCreateContainer name img env) = True"
| "isCreate c = False"



fun isStopOf :: "string \<Rightarrow> call \<Rightarrow> bool" where
  "isStopOf key (CallStopContainer k timeout) = (k = key)"
| "isStopOf key c = False"

fun isStopOrRemove :: "call \<Rightarrow> bool" where
  "isStopOrRemove (CallStopContainer k timeout) = True"
| "isStopOrRemove (CallRemoveContainer k) = True"
| "isStopOrRemove c = False"

section \<open>Example data\<close>

definition exampleApp :: "string \<Rightarrow> 64 word \<Rightarrow> ServiceConfig" where
  "exampleApp name v =
     \<lparr>sc_Name = name, sc_ID = v, sc_Version = ''registry.example.com/acme/'' @ name,
      sc_Env = [], sc_Ports = [],
      sc_ContainerName = name @ ''_current'',
      sc_IsContainerVersion = (\<lambda>n. take (length name + 1) n = name @ ''_'')\<rparr>"


definition emptyBackend :: backend where
  "emptyBackend =
     \<lparr>b_hashes = [], b_sets = [], b_ttls = [], b_published = [], b_faults = (\<lambda>call. None)\<rparr>"

definition exampleBackend :: backend where
  "exampleBackend =
     \<lparr>b_hashes = [(''prod/web/environment'', [(''ENV'', ''prod'')])],
      b_sets = [(''prod/pools/*'', [''frontend'', ''workers'']),
                (''prod/pools/frontend'', [''web'', ''api''])],
      b_ttls = [], b_published = [], b_faults = (\<lambda>call. None)\<rparr>"

definition exampleGetServiceConfig :: getcfg where
  "exampleGetServiceConfig app env b =
     (if app = ''db'' then (None, Some (Failure ''unable to decode config''))
      else (Some (exampleApp app 1), None))"

definition twoAppsBackend :: backend where
  "twoAppsBackend =
     \<lparr>b_hashes = [(''prod/web/environment'', [(''ENV'', ''prod'')]),
                  (''prod/db/environment'', [(''ENV'', ''prod'')]),
                  (''prod/web/hosts/10.0.0.1/web/0123456789ab'', [(''location'', ''{}'')]),
                  (''prod/web/hosts/10.0.0.1/web/ba9876543210'', [(''location'', ''garbage'')])],
      b_sets = [], b_ttls = [], b_published = [], b_faults = (\<lambda>call. None)\<rparr>"

definition exampleParse :: parser where
  "exampleParse text = (if text = ''{}'' then Inr [] else Inl (Failure ''invalid character''))"

definition exampleScans :: "string \<Rightarrow> bool" where
  "exampleScans key \<longleftrightarrow>
     take 13 key = ''VIRTUAL_HOST_'' \<and> 13 < length key \<and> key ! 13 \<in> set ''0123456789''"

definition exampleRender :: "(string \<times> json) list \<Rightarrow> string \<times> error option" where
  "exampleRender members = (''{}'', None)"

definition exampleContainer :: "(string \<times> PortBinding list) list \<Rightarrow> Container" where
  "exampleContainer ports =
     \<lparr>c_ID = ''0123456789abcdef0123456789abcdef'',
      c_Name = ''/web_7'',
      c_Created = 1000,
      c_Config = \<lparr>cfg_Image = ''registry.example.com/acme/web:7'',
                  cfg_Env = [''GALAXY_APP=web'', ''GALAXY_PORT=8080'']\<rparr>,
      c_NetworkSettings = \<lparr>ns_IPAddress = ''172.17.0.2'', ns_Ports = ports\<rparr>,
      c_State = \<lparr>st_Running = True\<rparr>\<rparr>"





section \<open>Properties of change detection\<close>

















section \<open>Paths and patterns\<close>

lemma strings_Split_nonempty: "strings_Split s sep \<noteq> []"
  by (induction s) (auto split: list.splits)

lemma strings_Split_append:
  "strings_Split (a @ sep # b) sep = strings_Split a sep @ strings_Split b sep"
proof (induction a)
  case Nil
  then show ?case by simp
next
  case (Cons c a)
  then show ?case
    using strings_Split_nonempty [of a sep]
    by (cases "strings_Split a sep") auto
qed

lemma strings_Split_plain: "sep \<notin> set x \<Longrightarrow> strings_Split x sep = [x]"
  by (induction x) auto

lemma strings_Join_snoc:
  "strings_Join (es @ [x]) sep = (if es = [] then x else strings_Join es sep @ sep @ x)"
  by (induction es sep rule: strings_Join.induct) auto

lemma strings_Join_nonempty:
  "es \<noteq> [] \<Longrightarrow> \<forall>e\<in>set es. e \<noteq> [] \<Longrightarrow> strings_Join es sep \<noteq> []"
  by (induction es sep rule: strings_Join.induct) auto

lemma cleanElems_append:
  "cleanElems r out (xs @ ys) = cleanElems r (rev (cleanElems r out xs)) ys"
  by (induction r out xs rule: cleanElems.induct) (auto split: list.splits)

lemma path_Clean_plain_last:
  assumes "x \<noteq> []" "x \<noteq> ''.''" "x \<noteq> ''..''" "CHR ''/'' \<notin> set x" "J \<noteq> []"
  shows "path_Clean (J @ CHR ''/'' # x) =
           (if hd J = CHR ''/'' then ''/'' else []) @
           (if cleanElems (hd J = CHR ''/'') [] (strings_Split J (CHR ''/'')) = [] then []
            else strings_Join (cleanElems (hd J = CHR ''/'') [] (strings_Split J (CHR ''/''))) ''/'' @ ''/'') @ x"
proof -
  have split: "cleanElems r [] (strings_Split (J @ CHR ''/'' # x) (CHR ''/'')) =
                 cleanElems r [] (strings_Split J (CHR ''/'')) @ [x]" for r
    using assms(1-4)
    by (simp add: strings_Split_append strings_Split_plain cleanElems_append)
  show ?thesis
  proof (cases "hd J = CHR ''/''")
    case True
    then show ?thesis
      using assms(1,5) by (simp add: path_Clean_def split strings_Join_snoc)
  next
    case False
    then show ?thesis
      using assms(1,5) by (simp add: path_Clean_def split strings_Join_snoc)
  qed
qed

lemma path_Clean_plain:
  assumes "x \<noteq> []" "x \<noteq> ''.''" "x \<noteq> ''..''" "CHR ''/'' \<notin> set x"
  shows "path_Clean x = x"
proof -
  have "hd x \<noteq> CHR ''/''" using assms(1,4) by (cases x) auto
  then show ?thesis
    using assms by (simp add: path_Clean_def strings_Split_plain)
qed

lemma path_Join_plain_last:
  "\<exists>P. \<forall>x. x \<noteq> [] \<longrightarrow> x \<noteq> ''.'' \<longrightarrow> x \<noteq> ''..'' \<longrightarrow> CHR ''/'' \<notin> set x \<longrightarrow>
          path_Join (es @ [x]) = P @ x"
proof (cases "filter (\<lambda>e. e \<noteq> []) es = []")
  case True
  then have "path_Join (es @ [x]) = [] @ x"
    if "x \<noteq> []" "x \<noteq> ''.''" "x \<noteq> ''..''" "CHR ''/'' \<notin> set x" for x
    using that by (simp add: path_Join_def path_Clean_plain)
  then show ?thesis by blast
next
  case False
  let ?F = "filter (\<lambda>e. e \<noteq> []) es"
  let ?J = "strings_Join ?F ''/''"
  have J: "?J \<noteq> []" using False by (intro strings_Join_nonempty) auto
  let ?P = "(if hd ?J = CHR ''/'' then ''/'' else []) @
           (if cleanElems (hd ?J = CHR ''/'') [] (strings_Split ?J (CHR ''/'')) = [] then []
            else strings_Join (cleanElems (hd ?J = CHR ''/'') [] (strings_Split ?J (CHR ''/''))) ''/'' @ ''/'')"
  have "path_Join (es @ [x]) = ?P @ x"
    if "x \<noteq> []" "x \<noteq> ''.''" "x \<noteq> ''..''" "CHR ''/'' \<notin> set x" for x
  proof -
    have "path_Join (es @ [x]) = path_Clean (?J @ CHR ''/'' # x)"
      using that(1) False by (simp add: path_Join_def strings_Join_snoc)
    then show ?thesis
      using path_Clean_plain_last [OF that J] by simp
  qed
  then show ?thesis by blast
qed

lemma glob_match_star_weaken: "glob_match ps s \<Longrightarrow> glob_match (CHR ''*'' # ps) s"
  by (cases s) auto

lemma glob_match_prefix: "glob_match q s \<Longrightarrow> glob_match (P @ q) (P @ s)"
  by (induction P) (auto intro: glob_match_star_weaken)

lemma glob_match_star: "glob_match ''*'' s"
  by (induction s) auto

lemma app_key_matches:
  "glob_match (path_Join [env, app, ''*'']) (path_Join [env, app, ''environment''])"
proof -
  obtain P where P: "\<forall>x. x \<noteq> [] \<longrightarrow> x \<noteq> ''.'' \<longrightarrow> x \<noteq> ''..'' \<longrightarrow> CHR ''/'' \<notin> set x \<longrightarrow>
          path_Join ([env, app] @ [x]) = P @ x"
    using path_Join_plain_last [of "[env, app]"] by blast
  have "path_Join [env, app, ''*''] = P @ ''*''"
    using P [rule_format, of "''*''"] by simp
  moreover have "path_Join [env, app, ''environment''] = P @ ''environment''"
    using P [rule_format, of "''environment''"] by simp
  ultimately show ?thesis
    by (simp add: glob_match_prefix glob_match_star)
qed

section \<open>Creating an app\<close>

lemma Keys_no_fault:
  "b_faults b (OpKeys pattern) = None \<Longrightarrow>
     Keys pattern b = (filter (glob_match pattern) (backend_keys b), None)"
  by (simp add: Keys_def)

lemma AppExists_False_iff:
  "AppExists app env b = (False, None) \<longleftrightarrow>
     b_faults b (OpKeys (path_Join [env, app, ''*''])) = None \<and>
     (\<forall>k\<in>set (backend_keys b). \<not> glob_match (path_Join [env, app, ''*'']) k)"
  by (auto simp: AppExists_def Keys_def filter_empty_conv split: option.splits)

lemma AppExists_True_iff:
  "AppExists app env b = (True, None) \<longleftrightarrow>
     b_faults b (OpKeys (path_Join [env, app, ''*''])) = None \<and>
     (\<exists>k\<in>set (backend_keys b). glob_match (path_Join [env, app, ''*'']) k)"
  by (auto simp: AppExists_def Keys_def filter_empty_conv split: option.splits)

lemma Set_no_fault:
  "b_faults b (OpSet key field val) = None \<Longrightarrow>
     Set key field val b =
       (None, b\<lparr>b_hashes := AList.update key
                   (AList.update field val (case map_of (b_hashes b) key of None \<Rightarrow> [] | Some h \<Rightarrow> h))
                   (b_hashes b)\<rparr>)"
  by (simp add: Set_def)

lemma key_in_update: "k \<in> fst ` set (AList.update k v al)"
  by (induction al) auto

lemma map_of_None_if_not_key: "k \<notin> fst ` set al \<Longrightarrow> map_of al k = None"
  by (simp add: map_of_eq_None_iff)

text \<open>
  C1. When \<open>AppExists\<close> reports that the app is absent and the backend accepts the
  write, \<open>CreateApp\<close> returns \<open>true\<close> and stores the config tagged with the
  environment at \<open>env/app/environment\<close>; \<open>AppExists\<close> then returns \<open>true\<close>, and a
  second \<open>CreateApp\<close> for the same pair returns \<open>false\<close> with no error and leaves the
  backend, and so the stored config, exactly as it was. This holds for every app and
  environment name, with no condition on their form.
\<close>

theorem CreateApp_then_AppExists:
  assumes absent: "AppExists app env b = (False, None)"
      and writable: "b_faults b (OpSet (path_Join [env, app, ''environment'']) ''ENV'' env) = None"
  shows "fst (CreateApp app env b) = (True, None)
       \<and> map_of (b_hashes (snd (CreateApp app env b))) (path_Join [env, app, ''environment''])
           = Some [(''ENV'', env)]
       \<and> AppExists app env (snd (CreateApp app env b)) = (True, None)
       \<and> CreateApp app env (snd (CreateApp app env b)) = ((False, None), snd (CreateApp app env b))"
proof -
  let ?key = "path_Join [env, app, ''environment'']"
  let ?b1 = "b\<lparr>b_hashes := AList.update ?key [(''ENV'', env)] (b_hashes b)\<rparr>"
  from absent have nofault: "b_faults b (OpKeys (path_Join [env, app, ''*''])) = None"
    and nokey: "\<forall>k\<in>set (backend_keys b). \<not> glob_match (path_Join [env, app, ''*'']) k"
    by (simp_all add: AppExists_False_iff)
  have "?key \<notin> set (backend_keys b)"
    using nokey app_key_matches [of env app] by blast
  then have "?key \<notin> fst ` set (b_hashes b)"
    by (simp add: backend_keys_def)
  then have fresh: "map_of (b_hashes b) ?key = None"
    by (rule map_of_None_if_not_key)
  have created: "CreateApp app env b = ((True, None), ?b1)"
    using absent writable fresh
    by (simp add: CreateApp_def SetServiceConfig_def Set_no_fault)
  have stored: "map_of (b_hashes ?b1) ?key = Some [(''ENV'', env)]"
    by (simp add: update_conv')
  have "?key \<in> set (backend_keys ?b1)"
    using key_in_update [of ?key "[(''ENV'', env)]" "b_hashes b"]
    by (simp add: backend_keys_def)
  then have exists: "AppExists app env ?b1 = (True, None)"
    using nofault app_key_matches [of env app]
    by (auto simp: AppExists_True_iff)
  then have again: "CreateApp app env ?b1 = ((False, None), ?b1)"
    by (simp add: CreateApp_def)
  show ?thesis
    unfolding created using stored exists again by simp
qed

theorem CreateApp_then_AppExists_witness:
  "AppExists ''web'' ''prod'' emptyBackend = (False, None)
   \<and> b_faults emptyBackend (OpSet (path_Join [''prod'', ''web'', ''environment'']) ''ENV'' ''prod'') = None
   \<and> fst (CreateApp ''web'' ''prod'' emptyBackend) = (True, None)
   \<and> AppExists ''web'' ''prod'' (snd (CreateApp ''web'' ''prod'' emptyBackend)) = (True, None)
   \<and> fst (CreateApp ''web'' ''prod'' (snd (CreateApp ''web'' ''prod'' emptyBackend))) = (False, None)"
proof -
  have absent: "AppExists ''web'' ''prod'' emptyBackend = (False, None)"
    by (simp add: AppExists_def Keys_def backend_keys_def emptyBackend_def)
  have writable: "b_faults emptyBackend (OpSet (path_Join [''prod'', ''web'', ''environment'']) ''ENV'' ''prod'') = None"
    by (simp add: emptyBackend_def)
  show ?thesis
    using absent writable CreateApp_then_AppExists [OF absent writable] by simp
qed

section \<open>Deleting a pool\<close>

lemma set_members_update:
  "set_members (b\<lparr>b_sets := AList.update key ms (b_sets b)\<rparr>) k =
     (if k = key then ms else set_members b k)"
  by (simp add: set_members_def update_conv')

lemma set_members_delete:
  "set_members (b\<lparr>b_sets := AList.delete key (b_sets b)\<rparr>) k =
     (if k = key then [] else set_members b k)"
  by (simp add: set_members_def delete_conv')

lemma RemoveMember_result:
  assumes "b_faults b (OpRemoveMember key v) = None"
  shows "fst (RemoveMember key v b) = ((if v \<in> set (set_members b key) then 1 else 0), None)"
    and "set_members (snd (RemoveMember key v b)) k =
           (if k = key then removeAll v (set_members b key) else set_members b k)"
    and "b_faults (snd (RemoveMember key v b)) = b_faults b"
  using assms
  by (auto simp: RemoveMember_def set_members_update set_members_delete)

lemma Notify_result:
  "set_members (snd (Notify ch p b)) k = set_members b k"
  "b_faults (snd (Notify ch p b)) = b_faults b"
  by (auto simp: Notify_def set_members_def split: option.splits)

lemma UnassignApp_result:
  assumes "b_faults b = (\<lambda>call. None)"
  shows "set_members (snd (UnassignApp app env pool b)) k =
           (if k = path_Join [env, ''pools'', pool]
            then removeAll app (set_members b k) else set_members b k)"
    and "b_faults (snd (UnassignApp app env pool b)) = (\<lambda>call. None)"
proof -
  let ?key = "path_Join [env, ''pools'', pool]"
  have nf: "b_faults b (OpRemoveMember ?key app) = None" using assms by simp
  obtain r b1 where rm: "RemoveMember ?key app b = ((r, None), b1)"
    using RemoveMember_result(1) [OF nf] by (cases "RemoveMember ?key app b") auto
  have m1: "set_members b1 k = (if k = ?key then removeAll app (set_members b ?key) else set_members b k)"
    using RemoveMember_result(2) [OF nf, of k] rm by simp
  have f1: "b_faults b1 = (\<lambda>call. None)"
    using RemoveMember_result(3) [OF nf] rm assms by simp
  have "snd (UnassignApp app env pool b) = b1 \<or> snd (UnassignApp app env pool b) = snd (NotifyRestart app env b1)"
    using rm by (auto simp: UnassignApp_def split: prod.splits option.splits)
  then show "set_members (snd (UnassignApp app env pool b)) k =
           (if k = path_Join [env, ''pools'', pool]
            then removeAll app (set_members b k) else set_members b k)"
    using m1 by (auto simp: NotifyRestart_def Notify_result)
  show "b_faults (snd (UnassignApp app env pool b)) = (\<lambda>call. None)"
    using \<open>snd (UnassignApp app env pool b) = b1 \<or> _\<close> f1
    by (auto simp: NotifyRestart_def Notify_result)
qed

lemma unassignAll_result:
  "b_faults b = (\<lambda>call. None) \<Longrightarrow>
     b_faults (unassignAll apps env pool b) = (\<lambda>call. None) \<and>
     set_members (unassignAll apps env pool b) k =
       (if k = path_Join [env, ''pools'', pool]
        then filter (\<lambda>a. a \<notin> set apps) (set_members b k) else set_members b k)"
proof (induction apps arbitrary: b)
  case Nil
  then show ?case by simp
next
  case (Cons app apps)
  let ?b1 = "snd (UnassignApp app env pool b)"
  have f1: "b_faults ?b1 = (\<lambda>call. None)"
    using Cons.prems by (rule UnassignApp_result(2))
  have m1: "set_members ?b1 k =
           (if k = path_Join [env, ''pools'', pool]
            then removeAll app (set_members b k) else set_members b k)"
    using Cons.prems by (rule UnassignApp_result(1))
  have flt: "filter (\<lambda>a. a \<notin> set apps) (removeAll app xs) = filter (\<lambda>a. a \<notin> set (app # apps)) xs" for xs
    by (induction xs) auto
  show ?case
  proof (cases "k = path_Join [env, ''pools'', pool]")
    case True
    then show ?thesis
      using Cons.IH [OF f1] m1 flt [of "set_members b k"] by simp
  next
    case False
    then show ?thesis
      using Cons.IH [OF f1] m1 by simp
  qed
qed

lemma ListPools_loop_no_fault:
  "b_faults b = (\<lambda>call. None) \<Longrightarrow>
     snd (ListPools_loop env b m pools) = None \<and>
     (fst (ListPools_loop env b m pools) p \<noteq> None \<longleftrightarrow> m p \<noteq> None \<or> p \<in> set pools)"
  by (induction pools arbitrary: m) (auto simp: ListAssignments_def Members_def)

lemma PoolExists_no_fault:
  assumes "b_faults b = (\<lambda>call. None)"
  shows "PoolExists env pool b = (pool \<in> set (set_members b (path_Join [env, ''pools'', ''*''])), None)"
proof -
  let ?ms = "set_members b (path_Join [env, ''pools'', ''*''])"
  have "ListPools env b = ListPools_loop env b Map.empty ?ms"
    using assms by (simp add: ListPools_def Members_def)
  moreover obtain m e where r: "ListPools_loop env b Map.empty ?ms = (m, e)"
    by (cases "ListPools_loop env b Map.empty ?ms")
  moreover have "e = None" and "m pool \<noteq> None \<longleftrightarrow> pool \<in> set ?ms"
    using ListPools_loop_no_fault [OF assms, of env Map.empty ?ms pool] r by auto
  ultimately show ?thesis
    by (auto simp: PoolExists_def)
qed


lemma DeletePool_refuses:
  "ListAssignments env pool b = (apps, None) \<Longrightarrow> apps \<noteq> [] \<Longrightarrow>
     DeletePool pool env b = ((False, None), b)"
  by (simp add: DeletePool_def)

text \<open>
  C2, as amended. Take a reachable backend, a pool that \<open>PoolExists\<close> reports, and
  suppose the key of the pool's assignment set is not the key \<open>env/pools/*\<close> of the
  environment's set of pools. While \<open>ListAssignments\<close> is non-empty, \<open>DeletePool\<close>
  returns \<open>false\<close> without an error and leaves the backend unchanged. Once
  \<open>UnassignApp\<close> has been called for every assigned app, \<open>ListAssignments\<close> is empty,
  the pool still exists, \<open>DeletePool\<close> returns \<open>true\<close>, and afterwards \<open>PoolExists\<close>
  reports the pool gone.
\<close>

theorem DeletePool_guarded_by_assignments:
  assumes nofault: "b_faults b = (\<lambda>call. None)"
      and exists: "PoolExists env pool b = (True, None)"
      and keys: "path_Join [env, ''pools'', pool] \<noteq> path_Join [env, ''pools'', ''*'']"
      and listed: "ListAssignments env pool b = (apps, None)"
  shows "(apps \<noteq> [] \<longrightarrow> DeletePool pool env b = ((False, None), b))
       \<and> ListAssignments env pool (unassignAll apps env pool b) = ([], None)
       \<and> PoolExists env pool (unassignAll apps env pool b) = (True, None)
       \<and> fst (DeletePool pool env (unassignAll apps env pool b)) = (True, None)
       \<and> PoolExists env pool (snd (DeletePool pool env (unassignAll apps env pool b))) = (False, None)"
proof -
  let ?akey = "path_Join [env, ''pools'', pool]"
  let ?pkey = "path_Join [env, ''pools'', ''*'']"
  let ?b' = "unassignAll apps env pool b"
  have apps: "apps = set_members b ?akey"
    using listed nofault by (simp add: ListAssignments_def Members_def)
  have member: "pool \<in> set (set_members b ?pkey)"
    using exists PoolExists_no_fault [OF nofault, of env pool] by simp
  have nf': "b_faults ?b' = (\<lambda>call. None)"
    using unassignAll_result [OF nofault] by blast
  have "set_members ?b' ?akey = filter (\<lambda>a. a \<notin> set apps) (set_members b ?akey)"
    using unassignAll_result [OF nofault, of apps env pool ?akey] by simp
  then have empty: "set_members ?b' ?akey = []"
    using apps by simp
  have pools': "set_members ?b' ?pkey = set_members b ?pkey"
    using unassignAll_result [OF nofault, of apps env pool ?pkey] keys by simp
  have la: "ListAssignments env pool ?b' = ([], None)"
    using nf' empty by (simp add: ListAssignments_def Members_def)
  have still: "PoolExists env pool ?b' = (True, None)"
    using PoolExists_no_fault [OF nf', of env pool] pools' member by simp
  have nfr: "b_faults ?b' (OpRemoveMember ?pkey pool) = None"
    using nf' by simp
  obtain r b2 where rm: "RemoveMember ?pkey pool ?b' = (r, b2)"
    by (cases "RemoveMember ?pkey pool ?b'")
  have r: "r = (1, None)"
    using RemoveMember_result(1) [OF nfr] rm pools' member by simp
  have m2: "set_members b2 ?pkey = removeAll pool (set_members ?b' ?pkey)"
    using RemoveMember_result(2) [OF nfr, of ?pkey] rm by simp
  have f2: "b_faults b2 = (\<lambda>call. None)"
    using RemoveMember_result(3) [OF nfr] rm nf' by simp
  have del: "DeletePool pool env ?b' = ((True, None), b2)"
    using la rm r by (simp add: DeletePool_def)
  have gone: "PoolExists env pool b2 = (False, None)"
    using PoolExists_no_fault [OF f2, of env pool] m2 by simp
  show ?thesis
    using DeletePool_refuses [OF listed] la still del gone by simp
qed

theorem DeletePool_guarded_by_assignments_witness:
  "b_faults exampleBackend = (\<lambda>call. None)
   \<and> PoolExists ''prod'' ''frontend'' exampleBackend = (True, None)
   \<and> path_Join [''prod'', ''pools'', ''frontend''] \<noteq> path_Join [''prod'', ''pools'', ''*'']
   \<and> ListAssignments ''prod'' ''frontend'' exampleBackend = ([''web'', ''api''], None)
   \<and> [''web'', ''api''] \<noteq> []
   \<and> DeletePool ''frontend'' ''prod'' exampleBackend = ((False, None), exampleBackend)
   \<and> fst (DeletePool ''frontend'' ''prod''
        (unassignAll [''web'', ''api''] ''prod'' ''frontend'' exampleBackend)) = (True, None)
   \<and> PoolExists ''prod'' ''frontend'' (snd (DeletePool ''frontend'' ''prod''
        (unassignAll [''web'', ''api''] ''prod'' ''frontend'' exampleBackend))) = (False, None)"
proof -
  have nofault: "b_faults exampleBackend = (\<lambda>call. None)"
    by (simp add: exampleBackend_def)
  have keys: "path_Join [''prod'', ''pools'', ''frontend''] \<noteq> path_Join [''prod'', ''pools'', ''*'']"
    by code_simp
  have exists: "PoolExists ''prod'' ''frontend'' exampleBackend = (True, None)"
    by (simp add: PoolExists_no_fault [OF nofault]) code_simp
  have listed: "ListAssignments ''prod'' ''frontend'' exampleBackend = ([''web'', ''api''], None)"
    by code_simp
  show ?thesis
    using nofault keys exists listed
      DeletePool_guarded_by_assignments [OF nofault exists keys listed]
    by simp
qed

text \<open>
  C2 as stated, for every pool, fails. A pool created under the name \<open>*\<close> has the
  environment's set of pools as its assignment set: it lists itself as assigned, and
  once that entry is unassigned \<open>DeletePool\<close> finds nothing to remove and returns
  \<open>false\<close>. So does \<open>DeletePool\<close> for a pool that was never created, although nothing
  is assigned to it.
\<close>

theorem DeletePool_star_pool_counterexample:
  "fst (CreatePool ''*'' ''prod'' emptyBackend) = (True, None)
   \<and> ListAssignments ''prod'' ''*'' (snd (CreatePool ''*'' ''prod'' emptyBackend)) = ([''*''], None)
   \<and> fst (UnassignApp ''*'' ''prod'' ''*'' (snd (CreatePool ''*'' ''prod'' emptyBackend))) = (True, None)
   \<and> ListAssignments ''prod'' ''*''
        (snd (UnassignApp ''*'' ''prod'' ''*'' (snd (CreatePool ''*'' ''prod'' emptyBackend)))) = ([], None)
   \<and> fst (DeletePool ''*'' ''prod''
        (snd (UnassignApp ''*'' ''prod'' ''*'' (snd (CreatePool ''*'' ''prod'' emptyBackend))))) = (False, None)
   \<and> ListAssignments ''prod'' ''frontend'' emptyBackend = ([], None)
   \<and> fst (DeletePool ''frontend'' ''prod'' emptyBackend) = (False, None)"
  by code_simp

section \<open>The wire format of a registration\<close>

lemma Unmarshal_append:
  "Unmarshal (xs @ ys) s = (case Unmarshal xs s of Inl err \<Rightarrow> Inl err | Inr s' \<Rightarrow> Unmarshal ys s')"
  by (induction xs arbitrary: s) (auto split: sum.splits)

lemma Unmarshal_omitempty:
  "Unmarshal (omitempty ''NAME'' v) s = Inr (if v = [] then s else s\<lparr>sr_Name := v\<rparr>)"
  "Unmarshal (omitempty ''EXTERNAL_IP'' v) s = Inr (if v = [] then s else s\<lparr>sr_ExternalIP := v\<rparr>)"
  "Unmarshal (omitempty ''EXTERNAL_PORT'' v) s = Inr (if v = [] then s else s\<lparr>sr_ExternalPort := v\<rparr>)"
  "Unmarshal (omitempty ''INTERNAL_IP'' v) s = Inr (if v = [] then s else s\<lparr>sr_InternalIP := v\<rparr>)"
  "Unmarshal (omitempty ''INTERNAL_PORT'' v) s = Inr (if v = [] then s else s\<lparr>sr_InternalPort := v\<rparr>)"
  "Unmarshal (omitempty ''IMAGE'' v) s = Inr (if v = [] then s else s\<lparr>sr_Image := v\<rparr>)"
  "Unmarshal (omitempty ''IMAGE_ID'' v) s = Inr (if v = [] then s else s\<lparr>sr_ImageId := v\<rparr>)"
  by (simp_all add: omitempty_def unmarshalMember_def setString_def)

lemma Unmarshal_always:
  "Unmarshal [(''CONTAINER_ID'', JString a), (''CONTAINER_NAME'', JString b)] s =
     Inr (s\<lparr>sr_ContainerID := a, sr_ContainerName := b\<rparr>)"
  "Unmarshal [(''STARTED_AT'', JTime t),
              (''VIRTUAL_HOSTS'', (case vh of None \<Rightarrow> JNull | Some hosts \<Rightarrow> JArray hosts)),
              (''PORT'', JString p)] s =
     Inr (s\<lparr>sr_StartedAt := t, sr_VirtualHosts := vh, sr_Port := p\<rparr>)"
  by (simp_all add: unmarshalMember_def setString_def split: option.splits)

lemma Unmarshal_error_pages:
  "Unmarshal (case ep of None \<Rightarrow> []
              | Some pages \<Rightarrow> if pages = fmempty then [] else [(''ERROR_PAGES'', JObject pages)]) s =
     Inr (case ep of
            None \<Rightarrow> s
          | Some pages \<Rightarrow>
              if pages = fmempty then s
              else s\<lparr>sr_ErrorPages := Some (case sr_ErrorPages s of None \<Rightarrow> pages | Some old \<Rightarrow> old ++\<^sub>f pages)\<rparr>)"
  by (simp add: unmarshalMember_def split: option.splits)

lemma Unmarshal_Marshal_into:
  "Unmarshal (Marshal s) t =
     Inr \<lparr>sr_Name = (if sr_Name s = [] then sr_Name t else sr_Name s),
          sr_ExternalIP = (if sr_ExternalIP s = [] then sr_ExternalIP t else sr_ExternalIP s),
          sr_ExternalPort = (if sr_ExternalPort s = [] then sr_ExternalPort t else sr_ExternalPort s),
          sr_InternalIP = (if sr_InternalIP s = [] then sr_InternalIP t else sr_InternalIP s),
          sr_InternalPort = (if sr_InternalPort s = [] then sr_InternalPort t else sr_InternalPort s),
          sr_ContainerID = sr_ContainerID s,
          sr_ContainerName = sr_ContainerName s,
          sr_Image = (if sr_Image s = [] then sr_Image t else sr_Image s),
          sr_ImageId = (if sr_ImageId s = [] then sr_ImageId t else sr_ImageId s),
          sr_StartedAt = sr_StartedAt s,
          sr_Expires = sr_Expires t,
          sr_Path = sr_Path t,
          sr_VirtualHosts = sr_VirtualHosts s,
          sr_Port = sr_Port s,
          sr_ErrorPages =
            (case sr_ErrorPages s of
               None \<Rightarrow> sr_ErrorPages t
             | Some pages \<Rightarrow>
                 if pages = fmempty then sr_ErrorPages t
                 else Some (case sr_ErrorPages t of None \<Rightarrow> pages | Some old \<Rightarrow> old ++\<^sub>f pages))\<rparr>"
  unfolding Marshal_def Unmarshal_append Unmarshal_omitempty Unmarshal_always
    Unmarshal_error_pages sum.case
  by (cases "sr_ErrorPages s") (simp_all add: ServiceRegistration.equality)

lemma Marshal_names:
  "fst ` set (Marshal s) =
     {''CONTAINER_ID'', ''CONTAINER_NAME'', ''STARTED_AT'', ''VIRTUAL_HOSTS'', ''PORT''}
     \<union> (if sr_Name s = [] then {} else {''NAME''})
     \<union> (if sr_ExternalIP s = [] then {} else {''EXTERNAL_IP''})
     \<union> (if sr_ExternalPort s = [] then {} else {''EXTERNAL_PORT''})
     \<union> (if sr_InternalIP s = [] then {} else {''INTERNAL_IP''})
     \<union> (if sr_InternalPort s = [] then {} else {''INTERNAL_PORT''})
     \<union> (if sr_Image s = [] then {} else {''IMAGE''})
     \<union> (if sr_ImageId s = [] then {} else {''IMAGE_ID''})
     \<union> (if sr_ErrorPages s = None \<or> sr_ErrorPages s = Some fmempty then {} else {''ERROR_PAGES''})"
  unfolding Marshal_def omitempty_def
  by (cases "sr_ErrorPages s") (simp_all add: insert_commute Un_commute)

text \<open>
  C7. Decoding the serialized form of any registration into a fresh struct gives the
  registration back, field by field: only \<open>Expires\<close> and \<open>Path\<close>, which are never
  written, are at their zero value, and an empty \<open>ErrorPages\<close> map, which is left
  out, comes back as \<open>nil\<close>. \<open>ERROR_PAGES\<close> is a member of the serialized form exactly
  when the map has an entry, and each of \<open>EXTERNAL_IP\<close>, \<open>EXTERNAL_PORT\<close>,
  \<open>INTERNAL_IP\<close>, \<open>INTERNAL_PORT\<close> exactly when its field is not the empty string.
\<close>

theorem Marshal_Unmarshal_roundtrip:
  "Unmarshal (Marshal s) zeroRegistration =
     Inr (s\<lparr>sr_Expires := 0, sr_Path := [],
            sr_ErrorPages := (if sr_ErrorPages s = Some fmempty then None else sr_ErrorPages s)\<rparr>)
   \<and> (''ERROR_PAGES'' \<in> fst ` set (Marshal s) \<longleftrightarrow>
        sr_ErrorPages s \<noteq> None \<and> sr_ErrorPages s \<noteq> Some fmempty)
   \<and> (''EXTERNAL_IP'' \<in> fst ` set (Marshal s) \<longleftrightarrow> sr_ExternalIP s \<noteq> [])
   \<and> (''EXTERNAL_PORT'' \<in> fst ` set (Marshal s) \<longleftrightarrow> sr_ExternalPort s \<noteq> [])
   \<and> (''INTERNAL_IP'' \<in> fst ` set (Marshal s) \<longleftrightarrow> sr_InternalIP s \<noteq> [])
   \<and> (''INTERNAL_PORT'' \<in> fst ` set (Marshal s) \<longleftrightarrow> sr_InternalPort s \<noteq> [])
   \<and> ''Expires'' \<notin> fst ` set (Marshal s) \<and> ''Path'' \<notin> fst ` set (Marshal s)"
proof -
  have "Unmarshal (Marshal s) zeroRegistration =
     Inr (s\<lparr>sr_Expires := 0, sr_Path := [],
            sr_ErrorPages := (if sr_ErrorPages s = Some fmempty then None else sr_ErrorPages s)\<rparr>)"
    unfolding Unmarshal_Marshal_into
    by (cases "sr_ErrorPages s") (simp_all add: zeroRegistration_def ServiceRegistration.equality)
  then show ?thesis
    unfolding Marshal_names by simp
qed

section \<open>Listing apps and registrations\<close>

lemma ListRegistrations_loop_eq:
  "ListRegistrations_loop parse b keys regList warnings =
     (regList @ List.map_filter (readableRegistration parse b) keys,
      snd (ListRegistrations_loop parse b keys regList warnings))
   \<and> length (snd (ListRegistrations_loop parse b keys regList warnings)) =
       length warnings + length (filter (\<lambda>key. readableRegistration parse b key = None) keys)"
proof (induction keys arbitrary: regList warnings)
  case Nil
  then show ?case by (simp add: List.map_filter_simps)
next
  case (Cons key keys)
  obtain val e where g: "Get key ''location'' b = (val, e)"
    by (cases "Get key ''location'' b")
  show ?case
  proof (cases e)
    case (Some err)
    then show ?thesis
      using g Cons.IH [of regList "warnings @ [UnableToGetLocation key err]"]
      by (simp add: readableRegistration_def List.map_filter_simps)
  next
    case None
    show ?thesis
    proof (cases "json_Unmarshal parse val (zeroRegistration\<lparr>sr_Name := path_Base key\<rparr>)")
      case (Inl err)
      then show ?thesis
        using g None Cons.IH [of regList "warnings @ [UnableToUnmarshal key err]"]
        by (simp add: readableRegistration_def List.map_filter_simps)
    next
      case (Inr svcReg)
      then show ?thesis
        using g None Cons.IH [of "regList @ [svcReg\<lparr>sr_Path := key\<rparr>]" warnings]
        by (simp add: readableRegistration_def List.map_filter_simps)
    qed
  qed
qed

lemma ListApps_loop_all_good:
  "\<forall>a\<in>set (appNames apps). \<exists>cfg. getcfg a env b = (Some cfg, None) \<Longrightarrow>
     ListApps_loop getcfg env b apps appList =
       Returns (appList @ map (\<lambda>a. the (fst (getcfg a env b))) (appNames apps), None)"
proof (induction apps arbitrary: appList)
  case Nil
  then show ?case by (simp add: appNames_def)
next
  case (Cons app apps)
  have rest: "\<forall>a\<in>set (appNames apps). \<exists>cfg. getcfg a env b = (Some cfg, None)"
    using Cons.prems by (auto simp: appNames_def)
  show ?case
  proof (cases "length (strings_Split app (CHR ''/'')) = 3 \<and> strings_Split app (CHR ''/'') ! 1 \<noteq> ''hosts''")
    case True
    then have names: "appNames (app # apps) = strings_Split app (CHR ''/'') ! 1 # appNames apps"
      by (simp add: appNames_def)
    then obtain cfg where c: "getcfg (strings_Split app (CHR ''/'') ! 1) env b = (Some cfg, None)"
      using Cons.prems by auto
    show ?thesis
      using True names c Cons.IH [OF rest, of "appList @ [cfg]"] by simp
  next
    case False
    then have "appNames (app # apps) = appNames apps"
      by (auto simp: appNames_def)
    then show ?thesis
      using False Cons.IH [OF rest, of appList] by (auto simp: Let_def)
  qed
qed

lemma ListApps_loop_first_failure:
  "appNames apps = good @ bad # rest \<Longrightarrow>
   \<forall>a\<in>set good. \<exists>cfg. getcfg a env b = (Some cfg, None) \<Longrightarrow>
   getcfg bad env b = (c, Some err) \<Longrightarrow>
     ListApps_loop getcfg env b apps appList = Returns ([], Some err)"
proof (induction apps arbitrary: appList good)
  case Nil
  then show ?case by (simp add: appNames_def)
next
  case (Cons app apps)
  show ?case
  proof (cases "length (strings_Split app (CHR ''/'')) = 3 \<and> strings_Split app (CHR ''/'') ! 1 \<noteq> ''hosts''")
    case True
    then have names: "appNames (app # apps) = strings_Split app (CHR ''/'') ! 1 # appNames apps"
      by (simp add: appNames_def)
    show ?thesis
    proof (cases good)
      case Nil
      then have "strings_Split app (CHR ''/'') ! 1 = bad"
        using names Cons.prems(1) by simp
      then show ?thesis
        using True Cons.prems(3) by (simp split: option.splits)
    next
      case (Cons g good')
      then have hd: "strings_Split app (CHR ''/'') ! 1 = g" and tl: "appNames apps = good' @ bad # rest"
        using names Cons.prems(1) by simp_all
      obtain cfg where c: "getcfg g env b = (Some cfg, None)"
        using Cons.prems(2) Cons by auto
      have good': "\<forall>a\<in>set good'. \<exists>cfg. getcfg a env b = (Some cfg, None)"
        using Cons.prems(2) Cons by simp
      show ?thesis
        using True hd c Cons.IH [OF tl good' Cons.prems(3), of "appList @ [cfg]"] by simp
    qed
  next
    case False
    then have "appNames (app # apps) = appNames apps"
      by (auto simp: appNames_def)
    then have "appNames apps = good @ bad # rest"
      using Cons.prems(1) by simp
    then have "ListApps_loop getcfg env b apps appList = Returns ([], Some err)"
      using Cons.prems(2,3) by (rule Cons.IH)
    then show ?thesis
      using False by (auto simp: Let_def)
  qed
qed


text \<open>
  C9, as amended. \<open>ListRegistrations\<close> does not fail on a record: once the keys are
  listed it returns, without an error, exactly the registrations that can be fetched
  and decoded, in key order, and logs one warning for each key it skips. \<open>ListApps\<close>
  does fail: when \<open>GetServiceConfig\<close> returns an error for an app, after succeeding for
  the apps before it, \<open>ListApps\<close> returns that error and no configs at all.
\<close>

theorem listings_on_record_failure:
  assumes regKeys: "Keys (path_Join [env, ''*'', ''hosts'', ''*'', ''*'', ''*'']) b = (keys, None)"
      and appKeys: "Keys (path_Join [env, ''*'', ''environment'']) b = (apps, None)"
      and names: "appNames apps = good @ bad # rest"
      and good: "\<forall>a\<in>set good. \<exists>cfg. GetServiceConfig a env b = (Some cfg, None)"
      and bad: "GetServiceConfig bad env b = (cfg, Some err)"
  shows "fst (ListRegistrations parse env b) =
           (List.map_filter (readableRegistration parse b) keys, None)
       \<and> length (snd (ListRegistrations parse env b)) =
           length (filter (\<lambda>key. readableRegistration parse b key = None) keys)
       \<and> ListApps GetServiceConfig env b = Returns ([], Some err)"
proof -
  obtain regs ws where loop: "ListRegistrations_loop parse b keys [] [] = (regs, ws)"
    by (cases "ListRegistrations_loop parse b keys [] []")
  have "regs = List.map_filter (readableRegistration parse b) keys"
    and "length ws = length (filter (\<lambda>key. readableRegistration parse b key = None) keys)"
    using ListRegistrations_loop_eq [of parse b keys "[]" "[]"] loop by simp_all
  moreover have "ListRegistrations parse env b = ((regs, None), ws)"
    using regKeys loop by (simp add: ListRegistrations_def)
  moreover have "ListApps GetServiceConfig env b = Returns ([], Some err)"
    using appKeys
      ListApps_loop_first_failure [where getcfg = GetServiceConfig, OF names good bad]
    by (simp add: ListApps_def)
  ultimately show ?thesis by simp
qed

theorem listings_on_record_failure_witness:
  "Keys (path_Join [''prod'', ''*'', ''hosts'', ''*'', ''*'', ''*'']) twoAppsBackend =
     ([''prod/web/hosts/10.0.0.1/web/0123456789ab'', ''prod/web/hosts/10.0.0.1/web/ba9876543210''], None)
   \<and> Keys (path_Join [''prod'', ''*'', ''environment'']) twoAppsBackend =
     ([''prod/web/environment'', ''prod/db/environment''], None)
   \<and> appNames [''prod/web/environment'', ''prod/db/environment''] = [''web''] @ ''db'' # []
   \<and> exampleGetServiceConfig ''web'' ''prod'' twoAppsBackend = (Some (exampleApp ''web'' 1), None)
   \<and> exampleGetServiceConfig ''db'' ''prod'' twoAppsBackend = (None, Some (Failure ''unable to decode config''))
   \<and> fst (ListRegistrations exampleParse ''prod'' twoAppsBackend) =
       ([zeroRegistration\<lparr>sr_Name := ''0123456789ab'',
                           sr_Path := ''prod/web/hosts/10.0.0.1/web/0123456789ab''\<rparr>], None)
   \<and> length (snd (ListRegistrations exampleParse ''prod'' twoAppsBackend)) = 1
   \<and> ListApps exampleGetServiceConfig ''prod'' twoAppsBackend =
       Returns ([], Some (Failure ''unable to decode config''))"
proof -
  have regKeys: "Keys (path_Join [''prod'', ''*'', ''hosts'', ''*'', ''*'', ''*'']) twoAppsBackend =
     ([''prod/web/hosts/10.0.0.1/web/0123456789ab'', ''prod/web/hosts/10.0.0.1/web/ba9876543210''], None)"
    by code_simp
  have appKeys: "Keys (path_Join [''prod'', ''*'', ''environment'']) twoAppsBackend =
     ([''prod/web/environment'', ''prod/db/environment''], None)"
    by code_simp
  have names: "appNames [''prod/web/environment'', ''prod/db/environment''] = [''web''] @ ''db'' # []"
    by code_simp
  have good: "\<forall>a\<in>set [''web'']. \<exists>cfg. exampleGetServiceConfig a ''prod'' twoAppsBackend = (Some cfg, None)"
    by (simp add: exampleGetServiceConfig_def)
  have bad: "exampleGetServiceConfig ''db'' ''prod'' twoAppsBackend = (None, Some (Failure ''unable to decode config''))"
    by (simp add: exampleGetServiceConfig_def)
  have r1: "readableRegistration exampleParse twoAppsBackend ''prod/web/hosts/10.0.0.1/web/0123456789ab''
      = Some (zeroRegistration\<lparr>sr_Name := ''0123456789ab'',
                           sr_Path := ''prod/web/hosts/10.0.0.1/web/0123456789ab''\<rparr>)"
    by code_simp
  have r2: "readableRegistration exampleParse twoAppsBackend ''prod/web/hosts/10.0.0.1/web/ba9876543210'' = None"
    by code_simp
  have web: "exampleGetServiceConfig ''web'' ''prod'' twoAppsBackend = (Some (exampleApp ''web'' 1), None)"
    by (simp add: exampleGetServiceConfig_def)
  show ?thesis
    using regKeys appKeys names web bad
      listings_on_record_failure [where GetServiceConfig = exampleGetServiceConfig
        and parse = exampleParse, OF regKeys appKeys names good bad]
    by (simp add: r1 r2 List.map_filter_simps)
qed

text \<open>
  C9 as stated fails for \<open>ListApps\<close>: of two apps, the config of the first can be
  fetched and the second cannot; \<open>ListApps\<close> returns the error and no config.
\<close>

theorem ListApps_fails_on_one_record_counterexample:
  "exampleGetServiceConfig ''web'' ''prod'' twoAppsBackend = (Some (exampleApp ''web'' 1), None)
   \<and> ListApps exampleGetServiceConfig ''prod'' twoAppsBackend =
       Returns ([], Some (Failure ''unable to decode config''))"
proof -
  have appKeys: "Keys (path_Join [''prod'', ''*'', ''environment'']) twoAppsBackend =
     ([''prod/web/environment'', ''prod/db/environment''], None)"
    by code_simp
  have names: "appNames [''prod/web/environment'', ''prod/db/environment''] = [''web''] @ ''db'' # []"
    by code_simp
  have good: "\<forall>a\<in>set [''web'']. \<exists>cfg. exampleGetServiceConfig a ''prod'' twoAppsBackend = (Some cfg, None)"
    by (simp add: exampleGetServiceConfig_def)
  have bad: "exampleGetServiceConfig ''db'' ''prod'' twoAppsBackend = (None, Some (Failure ''unable to decode config''))"
    by (simp add: exampleGetServiceConfig_def)
  have "ListApps exampleGetServiceConfig ''prod'' twoAppsBackend =
       Returns ([], Some (Failure ''unable to decode config''))"
    using appKeys
      ListApps_loop_first_failure [where getcfg = exampleGetServiceConfig, OF names good bad]
    by (simp add: ListApps_def)
  then show ?thesis
    by (simp add: exampleGetServiceConfig_def)
qed

section \<open>Registering a container\<close>

lemma firstBoundPort_find:
  "firstBoundPort ports =
     (case find (\<lambda>p. snd p \<noteq> []) ports of
        None \<Rightarrow> ([], [])
      | Some p \<Rightarrow> (pb_HostPort (hd (snd p)), Port_Port (fst p)))"
  by (induction ports) auto

lemma newServiceRegistration_ports:
  "(sr_ExternalIP (newServiceRegistration container hostIP),
    sr_ExternalPort (newServiceRegistration container hostIP),
    sr_InternalIP (newServiceRegistration container hostIP),
    sr_InternalPort (newServiceRegistration container hostIP)) =
     (case find (\<lambda>p. snd p \<noteq> []) (ns_Ports (c_NetworkSettings container)) of
        None \<Rightarrow> ([], [], [], [])
      | Some p \<Rightarrow>
          if pb_HostPort (hd (snd p)) \<noteq> [] \<and> Port_Port (fst p) \<noteq> []
          then (hostIP, pb_HostPort (hd (snd p)),
                ns_IPAddress (c_NetworkSettings container), Port_Port (fst p))
          else ([], [], [], []))"
  by (simp add: newServiceRegistration_def firstBoundPort_find zeroRegistration_def
        split: option.splits)

lemma case_render_ok:
  "\<forall>members. snd (render members) = None \<Longrightarrow>
     (case render m of (j, None) \<Rightarrow> B j | (j, Some err) \<Rightarrow> A j err) = B (fst (render m))"
proof -
  assume ok: "\<forall>members. snd (render members) = None"
  obtain j e where r: "render m = (j, e)" by (cases "render m")
  with ok have "e = None" by (metis snd_conv)
  with r show ?thesis by simp
qed

lemma case_Set_ok:
  "b_faults b = (\<lambda>call. None) \<Longrightarrow>
     (case Set key field val b of (None, b1) \<Rightarrow> B b1 | (Some err, b1) \<Rightarrow> A err b1) =
       B (snd (Set key field val b))
     \<and> b_faults (snd (Set key field val b)) = (\<lambda>call. None)"
  by (simp add: Set_def)

lemma case_Expire_ok:
  "b_faults b = (\<lambda>call. None) \<Longrightarrow>
     (case Expire key ttl b of (None, b1) \<Rightarrow> B b1 | (Some err, b1) \<Rightarrow> A err b1) =
       B (snd (Expire key ttl b))"
  by (simp add: Expire_def)

lemma RegisterService_succeeds:
  assumes env: "EnvFor container = Returns environment"
      and app: "lookupEnv environment ''GALAXY_APP'' \<noteq> []"
      and id: "12 \<le> length (c_ID container)"
      and rendered: "\<forall>members. snd (render members) = None"
      and reachable: "b_faults b = (\<lambda>call. None)"
  shows "\<exists>reg. resultOf (RegisterService scansVhostCode render ttl now env pool hostIP container b)
                 = Some (Some reg, None)
           \<and> sr_ExternalIP reg = sr_ExternalIP (newServiceRegistration container hostIP)
           \<and> sr_ExternalPort reg = sr_ExternalPort (newServiceRegistration container hostIP)
           \<and> sr_InternalIP reg = sr_InternalIP (newServiceRegistration container hostIP)
           \<and> sr_InternalPort reg = sr_InternalPort (newServiceRegistration container hostIP)"
  using env app id
  by (simp add: RegisterService_def Let_def resultOf_def
        case_render_ok [OF rendered]
        case_Set_ok [OF reachable, THEN conjunct1]
        case_Expire_ok [OF case_Set_ok [OF reachable, THEN conjunct2]])


text \<open>
  C10, as amended. Take a container whose \<open>Config.Env\<close> items all contain \<open>=\<close> and set
  \<open>GALAXY_APP\<close>, whose id has at least twelve characters, a JSON encoder that does not
  fail and a reachable backend. Then \<open>RegisterService\<close> returns a registration and no
  error. When no port of the container has a binding, \<open>ExternalIP\<close>, \<open>ExternalPort\<close>,
  \<open>InternalIP\<close> and \<open>InternalPort\<close> are all empty. Otherwise look at the first port
  with a binding, in the order the loop visits the ports: when the host port of its
  first binding and its port number are both non-empty, the four fields are the host
  IP, that host port, the container's IP address and that port number; when one of the
  two is empty, the four fields are all empty as well.
\<close>

theorem RegisterService_ports:
  assumes env: "EnvFor container = Returns environment"
      and app: "lookupEnv environment ''GALAXY_APP'' \<noteq> []"
      and id: "12 \<le> length (c_ID container)"
      and rendered: "\<forall>members. snd (render members) = None"
      and reachable: "b_faults b = (\<lambda>call. None)"
  shows "\<exists>reg. resultOf (RegisterService scansVhostCode render ttl now env pool hostIP container b)
                 = Some (Some reg, None)
           \<and> (sr_ExternalIP reg, sr_ExternalPort reg, sr_InternalIP reg, sr_InternalPort reg) =
               (case find (\<lambda>p. snd p \<noteq> []) (ns_Ports (c_NetworkSettings container)) of
                  None \<Rightarrow> ([], [], [], [])
                | Some p \<Rightarrow>
                    if pb_HostPort (hd (snd p)) \<noteq> [] \<and> Port_Port (fst p) \<noteq> []
                    then (hostIP, pb_HostPort (hd (snd p)),
                          ns_IPAddress (c_NetworkSettings container), Port_Port (fst p))
                    else ([], [], [], []))"
  using RegisterService_succeeds [OF env app id rendered reachable,
          of scansVhostCode ttl now env pool hostIP]
        newServiceRegistration_ports [of container hostIP]
  by auto

theorem RegisterService_ports_witness:
  "EnvFor (exampleContainer [(''53/udp'', []),
             (''80/tcp'', [\<lparr>pb_HostIp = ''0.0.0.0'', pb_HostPort = ''49153''\<rparr>])]) =
     Returns (fmupd ''GALAXY_PORT'' ''8080'' (fmupd ''GALAXY_APP'' ''web'' fmempty))
   \<and> lookupEnv (fmupd ''GALAXY_PORT'' ''8080'' (fmupd ''GALAXY_APP'' ''web'' fmempty)) ''GALAXY_APP'' \<noteq> []
   \<and> 12 \<le> length (c_ID (exampleContainer [(''53/udp'', []),
             (''80/tcp'', [\<lparr>pb_HostIp = ''0.0.0.0'', pb_HostPort = ''49153''\<rparr>])]))
   \<and> (\<forall>members. snd (exampleRender members) = None)
   \<and> b_faults emptyBackend = (\<lambda>call. None)
   \<and> (\<exists>reg. resultOf (RegisterService exampleScans exampleRender 60 0 ''prod'' ''web'' ''10.0.0.1''
                 (exampleContainer [(''53/udp'', []),
                    (''80/tcp'', [\<lparr>pb_HostIp = ''0.0.0.0'', pb_HostPort = ''49153''\<rparr>])])
                 emptyBackend) = Some (Some reg, None)
          \<and> (sr_ExternalIP reg, sr_ExternalPort reg, sr_InternalIP reg, sr_InternalPort reg) =
              (''10.0.0.1'', ''49153'', ''172.17.0.2'', ''80''))"
proof -
  let ?c = "exampleContainer [(''53/udp'', []),
             (''80/tcp'', [\<lparr>pb_HostIp = ''0.0.0.0'', pb_HostPort = ''49153''\<rparr>])]"
  let ?e = "fmupd ''GALAXY_PORT'' ''8080'' (fmupd ''GALAXY_APP'' ''web'' fmempty)"
  have env: "EnvFor ?c = Returns ?e"
    by (simp add: EnvFor_def exampleContainer_def)
  have app: "lookupEnv ?e ''GALAXY_APP'' \<noteq> []"
    by (simp add: lookupEnv_def)
  have id: "12 \<le> length (c_ID ?c)"
    by (simp add: exampleContainer_def)
  have rendered: "\<forall>members. snd (exampleRender members) = None"
    by (simp add: exampleRender_def)
  have reachable: "b_faults emptyBackend = (\<lambda>call. None)"
    by (simp add: emptyBackend_def)
  have ports: "find (\<lambda>p. snd p \<noteq> []) (ns_Ports (c_NetworkSettings ?c)) =
                 Some (''80/tcp'', [\<lparr>pb_HostIp = ''0.0.0.0'', pb_HostPort = ''49153''\<rparr>])"
    by (simp add: exampleContainer_def)
  have port: "Port_Port ''80/tcp'' = ''80''"
    by (simp add: Port_Port_def)
  have ip: "ns_IPAddress (c_NetworkSettings ?c) = ''172.17.0.2''"
    by (simp add: exampleContainer_def)
  show ?thesis
    using env app id rendered reachable
      RegisterService_ports [OF env app id rendered reachable,
        of exampleScans 60 0 "''prod''" "''web''" "''10.0.0.1''"]
    by (simp add: ports port ip)
qed

text \<open>
  C10 as stated fails when the first port with a binding has a binding without a host
  port: port \<open>80/tcp\<close> is exposed and bound, yet \<open>InternalPort\<close> is not \<open>80\<close> and the
  other three fields are empty too.
\<close>

theorem RegisterService_unbound_host_port_counterexample:
  "resultOf (RegisterService exampleScans exampleRender 60 0 ''prod'' ''web'' ''10.0.0.1''
      (exampleContainer [(''80/tcp'', [\<lparr>pb_HostIp = ''0.0.0.0'', pb_HostPort = []\<rparr>])])
      emptyBackend) =
     Some (Some \<lparr>sr_Name = ''web'', sr_ExternalIP = [], sr_ExternalPort = [],
                 sr_InternalIP = [], sr_InternalPort = [],
                 sr_ContainerID = ''0123456789abcdef0123456789abcdef'',
                 sr_ContainerName = ''/web_7'',
                 sr_Image = ''registry.example.com/acme/web:7'',
                 sr_ImageId = ''registry.example.com/acme/web:7'',
                 sr_StartedAt = 1000, sr_Expires = 60000000000, sr_Path = [],
                 sr_VirtualHosts = None, sr_Port = ''8080'', sr_ErrorPages = None\<rparr>,
           None)"
  by code_simp

section \<open>Pulling an image\<close>

lemma callsSince_called:
  "e_calls w' = e_calls w @ new \<Longrightarrow> callsSince w w' = new"
  by (simp add: callsSince_def)

lemma InspectImage_calls:
  "e_calls (snd (InspectImage v w)) = e_calls w @ [CallInspectImage v]"
  "e_fault (snd (InspectImage v w)) = e_fault w"
  by (auto simp: InspectImage_def called_def split: option.splits)

lemma engine_PullImage_calls:
  "e_calls (snd (engine_PullImage opts auth w)) = e_calls w @ [CallPullImage opts auth]"
  "e_fault (snd (engine_PullImage opts auth w)) = e_fault w"
  by (auto simp: engine_PullImage_def called_def split: option.splits)

lemma user_Current_calls:
  "e_calls (snd (user_Current w)) = e_calls w @ [CallUserCurrent]"
  "e_fault (snd (user_Current w)) = e_fault w"
  by (auto simp: user_Current_def called_def split: option.splits)

lemma auth_LoadConfig_calls:
  "e_calls (snd (auth_LoadConfig h w)) = e_calls w @ [CallLoadConfig h]"
  "e_fault (snd (auth_LoadConfig h w)) = e_fault w"
  by (auto simp: auth_LoadConfig_def called_def split: option.splits)


lemma PullImage_present:
  "fst (InspectImage version w) = (Some img, None) \<Longrightarrow>
     PullImage split s version w = Returns ((Some img, None), snd (InspectImage version w))"
  by (cases "InspectImage version w") (auto simp: PullImage_def)





end
